theory Spec2Isabelle
  imports Complex_Main "HOL-Library.AList" "HOL-Library.Multiset"
begin

section \<open>Python values held in the JSON documents\<close>

text \<open>
  The event store keeps every event as a JSON document (\<open>json.dumps\<close> of a \<open>dict\<close>),
  and \<open>EventRecord.from_dict\<close> reads the fields of such a document without checking
  their types. The values a document can hold are modelled by \<open>json\<close>. A float is a
  rational (every finite float is one), an infinity or a NaN. A \<open>dict\<close> is an
  association list in insertion order, keys unique. A string is held as the bytes of its
  UTF-8 encoding; \<open>chars\<close> gives its characters.
\<close>

datatype pyfloat = Finite rat | PosInf | NegInf | NaN

datatype json =
    JNull
  | JBool bool
  | JInt int
  | JFloat pyfloat
  | JStr string
  | JList "json list"
  | JDict "(string \<times> json) list"

type_synonym doc = "(string \<times> json) list"

text \<open>
  The exceptions of the model: those that the built-ins raise (\<open>int()\<close>, iteration, a
  method call on an object without that method, a division by zero), the one that the
  constructor of a button raises on a field of the wrong type, and those of the database
  driver (a violated constraint, a key that is not an integer).
\<close>

datatype error =
    TypeError | ValueError | OverflowError | AttributeError | ZeroDivisionError
  | ValidationError | IntegrityError | DataError

text \<open>The exception of a call that raises, \<open>None\<close> for a call that returns.\<close>

definition raised :: "error + 'a \<Rightarrow> error option" where
  "raised r = (case r of Inl e \<Rightarrow> Some e | Inr v \<Rightarrow> None)"

text \<open>
  Steps evaluated one after the other, each of which returns or raises: the exception of
  the first one that raises.
\<close>

fun first_error :: "error option list \<Rightarrow> error option" where
  "first_error [] = None"
| "first_error (None # steps) = first_error steps"
| "first_error (Some e # steps) = Some e"

text \<open>Truth value of a Python object, as \<open>if x\<close>, \<open>not x\<close> and \<open>x or y\<close> test it.\<close>

fun truthy :: "json \<Rightarrow> bool" where
  "truthy JNull = False"
| "truthy (JBool b) = b"
| "truthy (JInt i) = (i \<noteq> 0)"
| "truthy (JFloat (Finite r)) = (r \<noteq> 0)"
| "truthy (JFloat _) = True"
| "truthy (JStr s) = (s \<noteq> [])"
| "truthy (JList xs) = (xs \<noteq> [])"
| "truthy (JDict d) = (d \<noteq> [])"

definition py_or :: "json \<Rightarrow> json \<Rightarrow> json" where
  "py_or x y = (if truthy x then x else y)"

text \<open>\<open>d.get(k)\<close> (default \<open>None\<close>) and \<open>d.get(k, default)\<close>.\<close>

definition get0 :: "doc \<Rightarrow> string \<Rightarrow> json" where
  "get0 d k = (case map_of d k of None \<Rightarrow> JNull | Some v \<Rightarrow> v)"

definition get_default :: "doc \<Rightarrow> string \<Rightarrow> json \<Rightarrow> json" where
  "get_default d k dflt = (case map_of d k of None \<Rightarrow> dflt | Some v \<Rightarrow> v)"

text \<open>\<open>d[k] = v\<close>: an existing key keeps its place, a new key goes to the end.\<close>

definition setitem :: "doc \<Rightarrow> string \<Rightarrow> json \<Rightarrow> doc" where
  "setitem d k v = AList.update k v d"

definition setdefault :: "doc \<Rightarrow> string \<Rightarrow> json \<Rightarrow> doc" where
  "setdefault d k v = (case map_of d k of None \<Rightarrow> AList.update k v d | Some _ \<Rightarrow> d)"

text \<open>\<open>d.update(u)\<close>: every item of \<open>u\<close> is stored into \<open>d\<close>, in the order of \<open>u\<close>.\<close>

fun dict_update :: "doc \<Rightarrow> doc \<Rightarrow> doc" where
  "dict_update d [] = d"
| "dict_update d ((k, v) # u) = dict_update (setitem d k v) u"

subsection \<open>Characters\<close>

text \<open>
  The characters of a string: a byte below \<open>0xC0\<close> stands alone, a byte from \<open>0xC0\<close>,
  \<open>0xE0\<close>, \<open>0xF0\<close> on starts a character of two, three, four bytes. \<open>code_point\<close> is the
  number of a character.
\<close>

definition utf8_len :: "char \<Rightarrow> nat" where
  "utf8_len c =
     (let n = of_char c :: nat
      in if n < 0xC0 then 1 else if n < 0xE0 then 2 else if n < 0xF0 then 3 else 4)"

fun chars :: "string \<Rightarrow> string list" where
  "chars [] = []"
| "chars (c # cs) = (c # take (utf8_len c - 1) cs) # chars (drop (utf8_len c - 1) cs)"

fun code_point :: "string \<Rightarrow> int" where
  "code_point [a] = of_char a"
| "code_point [a, b] = (of_char a - 0xC0) * 0x40 + (of_char b - 0x80)"
| "code_point [a, b, c] =
     (of_char a - 0xE0) * 0x1000 + (of_char b - 0x80) * 0x40 + (of_char c - 0x80)"
| "code_point [a, b, c, d] =
     (of_char a - 0xF0) * 0x40000 + (of_char b - 0x80) * 0x1000 + (of_char c - 0x80) * 0x40
       + (of_char d - 0x80)"
| "code_point _ = 0"

text \<open>
  Iterating a Python object with \<open>for x in v\<close>: a list gives its items, a string its
  characters, a dict its keys; \<open>None\<close>, a bool and a number raise TypeError.
\<close>

fun py_iter :: "json \<Rightarrow> error + json list" where
  "py_iter (JList xs) = Inr xs"
| "py_iter (JStr s) = Inr (map JStr (chars s))"
| "py_iter (JDict d) = Inr (map (\<lambda>kv. JStr (fst kv)) d)"
| "py_iter _ = Inl TypeError"

subsection \<open>\<open>str.strip()\<close>\<close>

text \<open>
  The characters that \<open>str.isspace\<close> accepts and \<open>str.strip()\<close> removes from both ends
  (CPython 3.11, Unicode 14.0).
\<close>

definition unicode_space :: "int \<Rightarrow> bool" where
  "unicode_space n =
     ((0x09 \<le> n \<and> n \<le> 0x0D) \<or> (0x1C \<le> n \<and> n \<le> 0x20) \<or> n = 0x85 \<or> n = 0xA0 \<or>
      n = 0x1680 \<or> (0x2000 \<le> n \<and> n \<le> 0x200A) \<or> n = 0x2028 \<or> n = 0x2029 \<or>
      n = 0x202F \<or> n = 0x205F \<or> n = 0x3000)"

definition strip :: "string \<Rightarrow> string" where
  "strip s =
     concat (rev (dropWhile (\<lambda>ch. unicode_space (code_point ch))
                   (rev (dropWhile (\<lambda>ch. unicode_space (code_point ch)) (chars s)))))"

subsection \<open>The built-in \<open>int()\<close>\<close>

text \<open>
  \<open>int(s)\<close> on a string, as CPython 3.11 computes it. The string is first rewritten to
  ASCII: a character below 127 is kept, a character from 127 on becomes a blank if it is
  a space of Unicode, the ASCII digit of its value if it is a decimal digit of Unicode,
  and \<open>?\<close> otherwise. The decimal digits of Unicode 14.0 come in runs of ten, listed by
  their zeros.
\<close>

definition DIGIT_ZEROS :: "int list" where
  "DIGIT_ZEROS =
     [0x660, 0x6F0, 0x7C0, 0x966, 0x9E6, 0xA66, 0xAE6, 0xB66, 0xBE6, 0xC66, 0xCE6,
      0xD66, 0xDE6, 0xE50, 0xED0, 0xF20, 0x1040, 0x1090, 0x17E0, 0x1810, 0x1946,
      0x19D0, 0x1A80, 0x1A90, 0x1B50, 0x1BB0, 0x1C40, 0x1C50, 0xA620, 0xA8D0, 0xA900,
      0xA9D0, 0xA9F0, 0xAA50, 0xABF0, 0xFF10, 0x104A0, 0x10D30, 0x11066, 0x110F0,
      0x11136, 0x111D0, 0x112F0, 0x11450, 0x114D0, 0x11650, 0x116C0, 0x11730, 0x118E0,
      0x11950, 0x11C50, 0x11D50, 0x11DA0, 0x16A60, 0x16AC0, 0x16B50, 0x1D7CE, 0x1D7D8,
      0x1D7E2, 0x1D7EC, 0x1D7F6, 0x1E140, 0x1E2F0, 0x1E950, 0x1FBF0]"

definition decimal :: "int \<Rightarrow> int option" where
  "decimal n =
     (case filter (\<lambda>z. z \<le> n \<and> n \<le> z + 9) DIGIT_ZEROS of
        [] \<Rightarrow> None
      | z # zs \<Rightarrow> Some (n - z))"

definition to_ascii :: "string \<Rightarrow> char" where
  "to_ascii ch =
     (let n = code_point ch
      in if n < 127 then char_of n
         else if unicode_space n then CHR 0x20
         else (case decimal n of None \<Rightarrow> CHR 0x3F | Some d \<Rightarrow> char_of (0x30 + d)))"

text \<open>
  The rewritten string is then read: blanks (the six of C's \<open>isspace\<close>) at both ends are
  skipped, an optional sign follows, then decimal digits, where single underscores may
  separate digits. Anything else is a ValueError, and so is a literal of more than
  \<open>INT_MAX_STR_DIGITS\<close> digits (4300, the default of the interpreter).
\<close>

definition is_space :: "char \<Rightarrow> bool" where
  "is_space c = (let n = of_char c :: nat in (9 \<le> n \<and> n \<le> 13) \<or> n = 32)"

definition is_digit :: "char \<Rightarrow> bool" where
  "is_digit c = (let n = of_char c :: nat in 48 \<le> n \<and> n \<le> 57)"

definition digit_val :: "char \<Rightarrow> int" where
  "digit_val c = int (of_char c) - 48"

definition INT_MAX_STR_DIGITS :: nat where "INT_MAX_STR_DIGITS = 4300"

text \<open>
  \<open>digits acc prev s\<close> reads the digit string \<open>s\<close> after the value \<open>acc\<close>; \<open>prev\<close> says
  that the character before was a digit, as an underscore needs one on both sides.
\<close>

fun digits :: "int \<Rightarrow> bool \<Rightarrow> string \<Rightarrow> int option" where
  "digits acc prev [] = (if prev then Some acc else None)"
| "digits acc prev (c # cs) =
     (if is_digit c then digits (10 * acc + digit_val c) True cs
      else if c = CHR ''_'' \<and> prev \<and> cs \<noteq> [] then digits acc False cs
      else None)"

definition literal :: "string \<Rightarrow> int option" where
  "literal body =
     (if length (filter is_digit body) > INT_MAX_STR_DIGITS then None
      else digits 0 False body)"

definition int_of_str :: "string \<Rightarrow> int option" where
  "int_of_str s =
     (case rev (dropWhile is_space (rev (dropWhile is_space (map to_ascii (chars s))))) of
        [] \<Rightarrow> None
      | c # cs \<Rightarrow>
          if c = CHR ''-'' then map_option uminus (literal cs)
          else if c = CHR ''+'' then literal cs
          else literal (c # cs))"

definition trunc :: "rat \<Rightarrow> int" where
  "trunc r = (if 0 \<le> r then \<lfloor>r\<rfloor> else \<lceil>r\<rceil>)"

fun py_int :: "json \<Rightarrow> error + int" where
  "py_int JNull = Inl TypeError"
| "py_int (JBool b) = Inr (if b then 1 else 0)"
| "py_int (JInt i) = Inr i"
| "py_int (JFloat (Finite r)) = Inr (trunc r)"
| "py_int (JFloat NaN) = Inl ValueError"
| "py_int (JFloat _) = Inl OverflowError"
| "py_int (JStr s) = (case int_of_str s of None \<Rightarrow> Inl ValueError | Some i \<Rightarrow> Inr i)"
| "py_int (JList _) = Inl TypeError"
| "py_int (JDict _) = Inl TypeError"

subsection \<open>Equality of Python values\<close>

text \<open>
  \<open>==\<close> compares bools, ints and floats by their numeric value (\<open>True == 1 == 1.0\<close>),
  a NaN equals nothing, lists compare item by item and dicts key by key.
\<close>

fun num_of :: "json \<Rightarrow> rat option" where
  "num_of (JBool b) = Some (if b then 1 else 0)"
| "num_of (JInt i) = Some (of_int i)"
| "num_of (JFloat (Finite r)) = Some r"
| "num_of _ = None"

fun py_eq :: "json \<Rightarrow> json \<Rightarrow> bool" where
  "py_eq (JList xs) b = (case b of JList ys \<Rightarrow> list_all2 py_eq xs ys | _ \<Rightarrow> False)"
| "py_eq (JDict d) b =
     (case b of
        JDict e \<Rightarrow> length d = length e \<and>
          list_all (\<lambda>kv. case map_of e (fst kv) of None \<Rightarrow> False | Some w \<Rightarrow> py_eq (snd kv) w) d
      | _ \<Rightarrow> False)"
| "py_eq JNull b = (b = JNull)"
| "py_eq (JStr s) b = (b = JStr s)"
| "py_eq (JFloat PosInf) b = (b = JFloat PosInf)"
| "py_eq (JFloat NegInf) b = (b = JFloat NegInf)"
| "py_eq (JFloat NaN) b = False"
| "py_eq a b = (case num_of b of None \<Rightarrow> False | Some y \<Rightarrow> num_of a = Some y)"

text \<open>\<open>x in xs\<close> for a list \<open>xs\<close>.\<close>

definition py_in :: "json \<Rightarrow> json list \<Rightarrow> bool" where
  "py_in x xs = list_ex (py_eq x) xs"

section \<open>The event record (db/base_event.py)\<close>

text \<open>
  The dataclass \<open>EventRecord\<close>. Python does not check the annotations of a dataclass:
  \<open>from_dict\<close> stores whatever the document holds under a key, so a field that is
  passed through has the type \<open>json\<close>. The three fields that \<open>from_dict\<close> rebuilds
  have the type of what it builds: \<open>attendees\<close> is a list of ints, \<open>tags\<close> a list of
  values, \<open>moderation_messages\<close> a list of pairs (chat id, message id).
\<close>

record EventRecord =
  id_ev :: json
  title :: json
  starts_at :: json
  ends_at :: json
  location :: json
  short_description :: json
  contact :: json
  contact_name :: json
  contact_url :: json
  registration_link :: json
  attendees :: "int list"
  tags :: "json list"
  status :: json
  created_by :: json
  creator_name :: json
  creator_username :: json
  created_at :: json
  updated_at :: json
  approved_by :: json
  approved_at :: json
  moderator_note :: json
  moderation_messages :: "(json \<times> json) list"
  scheduled_at :: json

definition STATUS_PENDING :: string where "STATUS_PENDING = ''pending''"
definition STATUS_APPROVED :: string where "STATUS_APPROVED = ''approved''"
definition STATUS_REJECTED :: string where "STATUS_REJECTED = ''rejected''"

text \<open>
  The loop shared by \<open>from_dict\<close> and \<open>_prepare_payload\<close>:
  \<^verbatim>\<open>
  for value in attendees_raw:
      try: attendees.append(int(value))
      except (TypeError, ValueError): continue
  \<close>
  An OverflowError (\<open>int\<close> of an infinite float) is not caught and ends the loop.
\<close>

fun coerce_attendees :: "json list \<Rightarrow> error + int list" where
  "coerce_attendees [] = Inr []"
| "coerce_attendees (v # vs) =
     (case py_int v of
        Inr i \<Rightarrow> (case coerce_attendees vs of Inl e \<Rightarrow> Inl e | Inr is \<Rightarrow> Inr (i # is))
      | Inl TypeError \<Rightarrow> coerce_attendees vs
      | Inl ValueError \<Rightarrow> coerce_attendees vs
      | Inl e \<Rightarrow> Inl e)"

definition read_attendees :: "doc \<Rightarrow> error + int list" where
  "read_attendees d =
     (case py_iter (py_or (get0 d ''attendees'') (JList [])) of
        Inl e \<Rightarrow> Inl e
      | Inr vs \<Rightarrow> coerce_attendees vs)"

text \<open>\<open>isinstance(x, int)\<close>: a bool is an int in Python.\<close>

fun is_int :: "json \<Rightarrow> bool" where
  "is_int (JInt _) = True"
| "is_int (JBool _) = True"
| "is_int _ = False"

fun read_message :: "json \<Rightarrow> (json \<times> json) option" where
  "read_message (JDict item) =
     (let chat_id = get0 item ''chat_id''; message_id = get0 item ''message_id''
      in if is_int chat_id \<and> is_int message_id then Some (chat_id, message_id) else None)"
| "read_message _ = None"

definition read_tags :: "doc \<Rightarrow> json list" where
  "read_tags d =
     (let tags_raw = py_or (get0 d ''tags'') (JList [])
      in case tags_raw of
           JList xs \<Rightarrow> xs
         | JDict e \<Rightarrow> map (\<lambda>kv. JStr (fst kv)) e
         | _ \<Rightarrow> if truthy tags_raw then [tags_raw] else [])"

text \<open>
  A formatted string \<open>f"{v}"\<close> is the text itself for a string. The text that \<open>str()\<close>
  gives for any other value is the parameter \<open>str_other\<close>.
\<close>

definition format_value :: "(json \<Rightarrow> string) \<Rightarrow> json \<Rightarrow> string" where
  "format_value str_other v = (case v of JStr s \<Rightarrow> s | _ \<Rightarrow> str_other v)"

definition from_dict :: "(json \<Rightarrow> string) \<Rightarrow> doc \<Rightarrow> error + EventRecord" where
  "from_dict str_other data =
     (let tags' = read_tags data in
      case py_iter (py_or (get0 data ''moderation_messages'') (JList [])) of
        Inl e \<Rightarrow> Inl e
      | Inr items \<Rightarrow>
     (let moderation_messages' = List.map_filter read_message items;
          starts_at' = py_or (get0 data ''starts_at'') (get_default data ''scheduled_at'' (JStr ''''));
          scheduled_at' = get_default data ''scheduled_at'' starts_at';
          ends_at' = get_default data ''ends_at'' (JStr '''');
          contact_name' = get_default data ''contact_name'' (JStr '''');
          contact_url' = get_default data ''contact_url'' (JStr '''');
          contact0 = get_default data ''contact'' (JStr '''');
          contact' = (if \<not> truthy contact0 \<and> truthy contact_name' \<and> truthy contact_url'
                     then JStr (format_value str_other contact_name' @ '' ('' @
                                format_value str_other contact_url' @ '')'')
                     else contact0)
      in case read_attendees data of
           Inl e \<Rightarrow> Inl e
         | Inr attendees' \<Rightarrow>
             Inr \<lparr> id_ev = get0 data ''id'',
                   title = get_default data ''title'' (JStr ''''),
                   starts_at = starts_at',
                   ends_at = ends_at',
                   location = get_default data ''location'' (JStr ''''),
                   short_description = get_default data ''short_description'' (JStr ''''),
                   contact = contact',
                   contact_name = contact_name',
                   contact_url = contact_url',
                   registration_link = get_default data ''registration_link'' (JStr ''''),
                   attendees = attendees',
                   tags = tags',
                   status = get_default data ''status'' (JStr STATUS_PENDING),
                   created_by = get0 data ''created_by'',
                   creator_name = get_default data ''creator_name'' (JStr ''''),
                   creator_username = get_default data ''creator_username'' (JStr ''''),
                   created_at = get_default data ''created_at'' (JStr ''''),
                   updated_at = get_default data ''updated_at'' (JStr ''''),
                   approved_by = get0 data ''approved_by'',
                   approved_at = get0 data ''approved_at'',
                   moderator_note = get0 data ''moderator_note'',
                   moderation_messages = moderation_messages',
                   scheduled_at = scheduled_at' \<rparr>))"

definition message_dict :: "json \<times> json \<Rightarrow> json" where
  "message_dict m = JDict [(''chat_id'', fst m), (''message_id'', snd m)]"

definition to_dict :: "EventRecord \<Rightarrow> doc" where
  "to_dict r =
     [(''id'', id_ev r),
      (''title'', title r),
      (''starts_at'', starts_at r),
      (''ends_at'', ends_at r),
      (''location'', location r),
      (''short_description'', short_description r),
      (''contact'', contact r),
      (''contact_name'', contact_name r),
      (''contact_url'', contact_url r),
      (''registration_link'', registration_link r),
      (''attendees'', JList (map JInt (attendees r))),
      (''tags'', JList (tags r)),
      (''status'', status r),
      (''created_by'', created_by r),
      (''creator_name'', creator_name r),
      (''creator_username'', creator_username r),
      (''created_at'', created_at r),
      (''updated_at'', updated_at r),
      (''approved_by'', approved_by r),
      (''approved_at'', approved_at r),
      (''moderator_note'', moderator_note r),
      (''moderation_messages'', JList (map message_dict (moderation_messages r))),
      (''scheduled_at'', py_or (starts_at r) (scheduled_at r))]"

subsection \<open>The start and the end of an event\<close>

text \<open>
  A \<open>datetime\<close> is its wall-clock reading, in microseconds from the midnight that begins
  1 January of the year 1 (\<open>datetime.min\<close>), and its offset from UTC, \<open>None\<close> for a naive
  value. \<open>datetime.fromisoformat\<close> is a parameter of the functions that call it: \<open>None\<close>
  where it raises ValueError.
\<close>

record pydatetime =
  wall :: int
  utcoffset :: "int option"

definition day :: int where "day = 86400000000"

text \<open>The calendar day of a wall-clock reading (\<open>.date()\<close>).\<close>

definition date_of :: "int \<Rightarrow> int" where
  "date_of w = w div day"

text \<open>\<open>datetime.min\<close> and \<open>datetime.max\<close>, the last microsecond of the year 9999.\<close>

definition DATETIME_MIN :: pydatetime where
  "DATETIME_MIN = \<lparr> wall = 0, utcoffset = None \<rparr>"

definition DATETIME_MAX :: pydatetime where
  "DATETIME_MAX = \<lparr> wall = 3652059 * day - 1, utcoffset = None \<rparr>"

text \<open>
  \<open>EventRecord.scheduled_datetime\<close> and \<open>EventRecord.end_datetime\<close>; \<open>fromisoformat\<close> of
  a value that is not a string raises TypeError, which the methods do not catch.
\<close>

definition scheduled_datetime :: "(string \<Rightarrow> pydatetime option) \<Rightarrow> EventRecord
    \<Rightarrow> error + pydatetime option" where
  "scheduled_datetime fromisoformat event =
     (let date_str = py_or (starts_at event) (scheduled_at event)
      in if \<not> truthy date_str then Inr None
         else (case date_str of
                 JStr text \<Rightarrow> Inr (fromisoformat text)
               | _ \<Rightarrow> Inl TypeError))"

definition end_datetime :: "(string \<Rightarrow> pydatetime option) \<Rightarrow> EventRecord
    \<Rightarrow> error + pydatetime option" where
  "end_datetime fromisoformat event =
     (if \<not> truthy (ends_at event) then Inr None
      else (case ends_at event of
              JStr text \<Rightarrow> Inr (fromisoformat text)
            | _ \<Rightarrow> Inl TypeError))"

section \<open>The events repository (db/base_event.py)\<close>

fun is_str :: "json \<Rightarrow> bool" where
  "is_str (JStr _) = True"
| "is_str _ = False"

text \<open>The tags that \<open>_prepare_payload\<close> writes.\<close>

definition prepare_tags :: "doc \<Rightarrow> json" where
  "prepare_tags payload =
     (let tags' = py_or (get0 payload ''tags'') (JList [])
      in case tags' of
           JStr s \<Rightarrow> JList [tags']
         | JList xs \<Rightarrow> JList (filter is_str xs)
         | JDict e \<Rightarrow> JList (filter is_str (map (\<lambda>kv. JStr (fst kv)) e))
         | _ \<Rightarrow> JList [])"

definition blank_none :: "doc \<Rightarrow> string \<Rightarrow> doc" where
  "blank_none payload key =
     (if get0 payload key = JNull then setitem payload key (JStr '''') else payload)"

text \<open>
  \<open>_prepare_payload(data, is_new)\<close>; \<open>now\<close> is the text that \<open>_utcnow_iso()\<close> returns.
\<close>

definition prepare_payload :: "string \<Rightarrow> doc \<Rightarrow> bool \<Rightarrow> error + doc" where
  "prepare_payload now data is_new =
     (let p1 = (if is_new then setdefault data ''created_at'' (JStr now) else data);
          p2 = setitem p1 ''updated_at'' (JStr now);
          p3 = setitem p2 ''tags'' (prepare_tags p2);
          p4 = foldl blank_none p3
                 [''starts_at'', ''ends_at'', ''contact'', ''contact_name'', ''contact_url'',
                  ''registration_link'']
      in case read_attendees p4 of
           Inl e \<Rightarrow> Inl e
         | Inr attendees' \<Rightarrow>
             (let p5 = setitem p4 ''attendees'' (JList (map JInt attendees'))
              in Inr (if \<not> truthy (get0 p5 ''scheduled_at'')
                      then setitem p5 ''scheduled_at'' (get_default p5 ''starts_at'' (JStr ''''))
                      else p5)))"

text \<open>
  The table \<open>events\<close>: one row per id, holding the document (serialising with
  \<open>json.dumps\<close> and reading back with \<open>json.loads\<close> gives the document again), and the
  sequence behind the \<open>BIGSERIAL\<close> key.
\<close>

record store =
  rows :: "(int \<times> doc) list"
  next_id :: int

datatype insert_arg = Record EventRecord | Mapping doc

text \<open>
  The columns \<open>created_at\<close> and \<open>updated_at\<close> of the table are \<open>TEXT NOT NULL\<close>: a
  statement that binds \<open>None\<close> to one of them violates the constraint (IntegrityError).
  What the driver and the server answer to any other value bound to a \<open>TEXT\<close> column is
  the parameter \<open>bind_text\<close>: \<open>None\<close> where the value is stored, the exception otherwise.
\<close>

definition text_column :: "(json \<Rightarrow> error option) \<Rightarrow> json \<Rightarrow> error option" where
  "text_column bind_text v = (if v = JNull then Some IntegrityError else bind_text v)"

text \<open>
  \<open>insert\<close>: the first statement stores the document and the two timestamps and returns
  the new id, the second stores the document with its id. A key that is already taken
  makes the first one fail.
\<close>

definition insert :: "(json \<Rightarrow> string) \<Rightarrow> (json \<Rightarrow> error option) \<Rightarrow> string \<Rightarrow> store
    \<Rightarrow> insert_arg \<Rightarrow> error + (EventRecord \<times> store)" where
  "insert str_other bind_text now s event =
     (let base_payload = (case event of Record r \<Rightarrow> to_dict r | Mapping d \<Rightarrow> d)
      in case prepare_payload now base_payload True of
           Inl e \<Rightarrow> Inl e
         | Inr prepared0 \<Rightarrow>
             (case first_error [text_column bind_text (get0 prepared0 ''created_at''),
                                text_column bind_text (get0 prepared0 ''updated_at'')] of
                Some e \<Rightarrow> Inl e
              | None \<Rightarrow>
                  if map_of (rows s) (next_id s) \<noteq> None then Inl IntegrityError
                  else
                    (let event_id = next_id s;
                         prepared = setitem prepared0 ''id'' (JInt event_id);
                         s' = \<lparr> rows = AList.update event_id prepared (rows s),
                                next_id = next_id s + 1 \<rparr>
                     in case from_dict str_other prepared of
                          Inl e \<Rightarrow> Inl e
                        | Inr r \<Rightarrow> Inr (r, s'))))"

definition get :: "(json \<Rightarrow> string) \<Rightarrow> store \<Rightarrow> int \<Rightarrow> error + EventRecord option" where
  "get str_other s event_id =
     (case map_of (rows s) event_id of
        None \<Rightarrow> Inr None
      | Some payload \<Rightarrow>
          (case from_dict str_other (setdefault payload ''id'' (JInt event_id)) of
             Inl e \<Rightarrow> Inl e
           | Inr r \<Rightarrow> Inr (Some r)))"

definition update :: "(json \<Rightarrow> string) \<Rightarrow> (json \<Rightarrow> error option) \<Rightarrow> string \<Rightarrow> store
    \<Rightarrow> int \<Rightarrow> doc \<Rightarrow> error + (EventRecord option \<times> store)" where
  "update str_other bind_text now s event_id updates =
     (case get str_other s event_id of
        Inl e \<Rightarrow> Inl e
      | Inr None \<Rightarrow> Inr (None, s)
      | Inr (Some existing) \<Rightarrow>
          (let current_payload = dict_update (to_dict existing) updates
           in case prepare_payload now current_payload False of
                Inl e \<Rightarrow> Inl e
              | Inr prepared \<Rightarrow>
                  (case text_column bind_text (get0 prepared ''updated_at'') of
                     Some e \<Rightarrow> Inl e
                   | None \<Rightarrow>
                       (let s' = s\<lparr> rows := AList.update event_id prepared (rows s) \<rparr>
                        in case from_dict str_other prepared of
                             Inl e \<Rightarrow> Inl e
                           | Inr r \<Rightarrow> Inr (Some r, s')))))"

fun from_rows :: "(json \<Rightarrow> string) \<Rightarrow> (int \<times> doc) list \<Rightarrow> error + EventRecord list" where
  "from_rows str_other [] = Inr []"
| "from_rows str_other (row # rest) =
     (case from_dict str_other (setdefault (snd row) ''id'' (JInt (fst row))) of
        Inl e \<Rightarrow> Inl e
      | Inr r \<Rightarrow> (case from_rows str_other rest of Inl e \<Rightarrow> Inl e | Inr rs \<Rightarrow> Inr (r # rs)))"

definition list_all_events :: "(json \<Rightarrow> string) \<Rightarrow> store \<Rightarrow> error + EventRecord list" where
  "list_all_events str_other s = from_rows str_other (rev (sort_key fst (rows s)))"

section \<open>Who sees an event (utils/users.py, handlers/events/common.py)\<close>

text \<open>
  A \<open>User\<close> wraps the profile document \<open>raw\<close>; the viewer of an event is an
  \<open>Optional[User]\<close>. The direction tables are constants of \<open>constants.py\<close>, which is not
  among the sources: they are parameters, and so is \<open>ADMIN_IDS\<close>, taken to be a list.
\<close>

record directions =
  BACHELOR_DIRECTIONS :: "string list"
  MASTER_DIRECTIONS :: "string list"
  POSTGRADUATE_DIRECTION :: string

text \<open>
  \<open>load_user(tg_id)\<close>: the first document of the collection \<open>users\<close> whose \<open>tg_id\<close> equals
  the given one (\<open>find_one\<close>).
\<close>

definition load_user :: "doc list \<Rightarrow> int \<Rightarrow> doc option" where
  "load_user users user_id = find (\<lambda>raw. py_eq (get0 raw ''tg_id'') (JInt user_id)) users"

definition tg_id :: "doc \<Rightarrow> json" where
  "tg_id raw = get0 raw ''tg_id''"

definition get_direction :: "doc \<Rightarrow> json" where
  "get_direction raw = get_default raw ''direction'' (JStr '''')"

text \<open>
  \<open>get_direction_track(direction)\<close>. The result is \<open>None\<close> or one of three strings; a
  direction that is not a string has no \<open>strip\<close>, which is an AttributeError.
\<close>

definition get_direction_track :: "directions \<Rightarrow> json \<Rightarrow> error + json" where
  "get_direction_track dirs direction =
     (if \<not> truthy direction then Inr JNull
      else (case direction of
              JStr text \<Rightarrow>
                (let normalized = strip text
                 in if normalized \<in> set (BACHELOR_DIRECTIONS dirs) then Inr (JStr ''bachelor'')
                    else if normalized \<in> set (MASTER_DIRECTIONS dirs) then Inr (JStr ''master'')
                    else if normalized = POSTGRADUATE_DIRECTION dirs then Inr (JStr ''postgraduate'')
                    else Inr JNull)
            | _ \<Rightarrow> Inl AttributeError))"

definition user_track :: "directions \<Rightarrow> doc option \<Rightarrow> error + json" where
  "user_track dirs user =
     (case user of
        None \<Rightarrow> Inr JNull
      | Some raw \<Rightarrow>
          if truthy (get0 raw ''direction_track'') then Inr (get0 raw ''direction_track'')
          else get_direction_track dirs (get_direction raw))"

definition LEGACY_TAG_ALL :: string where "LEGACY_TAG_ALL = ''all''"

definition event_visible_for_user :: "int list \<Rightarrow> directions \<Rightarrow> EventRecord \<Rightarrow> doc option
    \<Rightarrow> error + bool" where
  "event_visible_for_user admins dirs event user =
     (if (case user of None \<Rightarrow> False | Some raw \<Rightarrow> py_in (tg_id raw) (map JInt admins))
      then Inr True
      else if (case user of None \<Rightarrow> False | Some raw \<Rightarrow> py_eq (tg_id raw) (created_by event))
      then Inr True
      else if \<not> py_eq (status event) (JStr STATUS_APPROVED) then Inr False
      else if tags event = [] then Inr True
      else if py_in (JStr LEGACY_TAG_ALL) (tags event) then Inr True
      else (case user_track dirs user of
              Inl e \<Rightarrow> Inl e
            | Inr track \<Rightarrow> if \<not> truthy track then Inr False
                          else Inr (py_in track (tags event))))"

text \<open>
  The viewer is an administrator: there is a viewer and the id of the profile equals
  one of \<open>ADMIN_IDS\<close>. The viewer is the creator: there is a viewer and the id of the
  profile equals the event's \<open>created_by\<close>.
\<close>

definition viewer_is_admin :: "int list \<Rightarrow> doc option \<Rightarrow> bool" where
  "viewer_is_admin admins user =
     (case user of None \<Rightarrow> False
      | Some raw \<Rightarrow> list_ex (\<lambda>admin_id. py_eq (tg_id raw) (JInt admin_id)) admins)"

definition viewer_is_creator :: "EventRecord \<Rightarrow> doc option \<Rightarrow> bool" where
  "viewer_is_creator event user =
     (case user of None \<Rightarrow> False | Some raw \<Rightarrow> py_eq (tg_id raw) (created_by event))"

section \<open>The card of an event (handlers/events/details.py, common.py)\<close>

text \<open>
  The handlers render an event before or after they write it. The texts themselves are not
  modelled, but whether the rendering returns: a function of this section gives the
  exception that the source function raises, or \<open>None\<close> where it returns its text or
  keyboard. \<open>html.escape\<close> calls \<open>replace\<close> on its argument, which only a string has.
\<close>

definition escape :: "json \<Rightarrow> error option" where
  "escape v = (if is_str v then None else Some AttributeError)"

text \<open>
  \<open>format_tags(tags)\<close> looks every tag up in the table of titles (a tag that is a list or
  a dict cannot be hashed) and joins the titles, where a tag without a title stands for
  itself (\<open>join\<close> accepts strings only): a tag that is not a string is a TypeError.
\<close>

definition format_tags :: "json list \<Rightarrow> error option" where
  "format_tags tags' = (if list_all is_str tags' then None else Some TypeError)"

definition format_event_details :: "(string \<Rightarrow> pydatetime option) \<Rightarrow> EventRecord
    \<Rightarrow> error option" where
  "format_event_details fromisoformat event =
     first_error
       [escape (title event),
        raised (scheduled_datetime fromisoformat event),
        raised (end_datetime fromisoformat event),
        (if truthy (location event) then escape (location event) else None),
        (if truthy (short_description event) then escape (short_description event) else None),
        (if truthy (registration_link event) then escape (registration_link event) else None),
        (if truthy (contact_name event) \<and> truthy (contact_url event)
         then first_error [escape (contact_url event), escape (contact_name event)]
         else if truthy (contact event) then escape (contact event) else None),
        (if tags event \<noteq> [] then format_tags (tags event) else None)]"

text \<open>
  \<open>build_event_keyboard\<close>: the callback data of its buttons are formatted strings; the
  button that opens \<open>registration_link\<close> is built where the link is truthy, and the button
  type of aiogram (a pydantic model) refuses a \<open>url\<close> that is not a string.
\<close>

definition build_event_keyboard :: "EventRecord \<Rightarrow> error option" where
  "build_event_keyboard event =
     (if truthy (registration_link event) \<and> \<not> is_str (registration_link event)
      then Some ValidationError else None)"

text \<open>
  \<open>update_event_message\<close>: the keyboard is the one passed as \<open>keyboard_override\<close> or the
  one built here, then the text is formatted, then the message is edited, where a
  \<open>TelegramBadRequest\<close> is logged. The calls to Telegram are taken to raise nothing but
  what the source catches around them.
\<close>

definition update_event_message :: "(string \<Rightarrow> pydatetime option) \<Rightarrow> EventRecord \<Rightarrow> bool
    \<Rightarrow> error option" where
  "update_event_message fromisoformat event keyboard_override =
     first_error
       [(if keyboard_override then None else build_event_keyboard event),
        format_event_details fromisoformat event]"

definition render_event_details_message :: "(string \<Rightarrow> pydatetime option) \<Rightarrow> EventRecord
    \<Rightarrow> error option" where
  "render_event_details_message fromisoformat event =
     update_event_message fromisoformat event False"

text \<open>
  \<open>update_moderation_messages\<close>: for every notice whose two ids are truthy the text is
  formatted and the notice edited.
\<close>

definition update_moderation_messages :: "(string \<Rightarrow> pydatetime option) \<Rightarrow> EventRecord
    \<Rightarrow> error option" where
  "update_moderation_messages fromisoformat event =
     first_error
       (map (\<lambda>entry. if truthy (fst entry) \<and> truthy (snd entry)
                      then format_event_details fromisoformat event else None)
          (moderation_messages event))"

section \<open>The list of events (handlers/events/listing.py, common.py)\<close>

text \<open>
  \<open>format_time_range\<close> and \<open>_format_event_list_entry\<close>, as far as they raise.
\<close>

definition format_time_range :: "(string \<Rightarrow> pydatetime option) \<Rightarrow> EventRecord \<Rightarrow> error option" where
  "format_time_range fromisoformat event =
     first_error [raised (scheduled_datetime fromisoformat event),
                  raised (end_datetime fromisoformat event)]"

definition format_event_list_entry :: "(string \<Rightarrow> pydatetime option) \<Rightarrow> EventRecord
    \<Rightarrow> error option" where
  "format_event_list_entry fromisoformat event =
     first_error
       [escape (title event),
        format_time_range fromisoformat event,
        (if truthy (location event) then escape (location event) else None)]"

definition build_events_message :: "(string \<Rightarrow> pydatetime option) \<Rightarrow> EventRecord list
    \<Rightarrow> error option" where
  "build_events_message fromisoformat events_page =
     first_error (map (format_event_list_entry fromisoformat) events_page)"

text \<open>
  Sorting by a \<open>datetime\<close> key. Two naive values compare by their readings, two aware
  ones by their instants; comparing a naive with an aware one raises TypeError, and a sort
  of a list that holds both has to compare two such keys. The sort is stable.
\<close>

definition instant :: "pydatetime \<Rightarrow> int" where
  "instant dt = (case utcoffset dt of None \<Rightarrow> wall dt | Some off \<Rightarrow> wall dt - off)"

definition sorted_by_datetime :: "(pydatetime \<times> 'a) list \<Rightarrow> error + (pydatetime \<times> 'a) list" where
  "sorted_by_datetime keyed =
     (if list_ex (\<lambda>k. utcoffset (fst k) = None) keyed \<and> list_ex (\<lambda>k. utcoffset (fst k) \<noteq> None) keyed
      then Inl TypeError
      else Inr (sort_key (\<lambda>k. instant (fst k)) keyed))"

text \<open>
  The key \<open>event.scheduled_datetime() or default\<close> of the two sorts of the list.
\<close>

fun keyed_events :: "(string \<Rightarrow> pydatetime option) \<Rightarrow> pydatetime \<Rightarrow> EventRecord list
    \<Rightarrow> error + (pydatetime \<times> EventRecord) list" where
  "keyed_events fromisoformat dflt [] = Inr []"
| "keyed_events fromisoformat dflt (event # events) =
     (case scheduled_datetime fromisoformat event of
        Inl e \<Rightarrow> Inl e
      | Inr start \<Rightarrow>
          (case keyed_events fromisoformat dflt events of
             Inl e \<Rightarrow> Inl e
           | Inr rest \<Rightarrow> Inr ((case start of None \<Rightarrow> dflt | Some dt \<Rightarrow> dt, event) # rest)))"

text \<open>\<open>sort_events\<close>: by start, an event without a start last.\<close>

definition sort_events :: "(string \<Rightarrow> pydatetime option) \<Rightarrow> EventRecord list
    \<Rightarrow> error + EventRecord list" where
  "sort_events fromisoformat events =
     (case keyed_events fromisoformat DATETIME_MAX events of
        Inl e \<Rightarrow> Inl e
      | Inr keyed \<Rightarrow>
          (case sorted_by_datetime keyed of
             Inl e \<Rightarrow> Inl e
           | Inr ks \<Rightarrow> Inr (map snd ks)))"

text \<open>
  \<open>_split_events_by_time\<close>: the loop puts an event without a start, or with a start on
  \<open>today\<close> or later, among the upcoming ones, any other among the past ones. The upcoming
  ones are then sorted by \<open>sort_events\<close>, the past ones by start with \<open>reverse=True\<close>, which
  keeps events of equal start in their order.
\<close>

fun partition_events :: "(string \<Rightarrow> pydatetime option) \<Rightarrow> int \<Rightarrow> EventRecord list
    \<Rightarrow> error + (EventRecord list \<times> EventRecord list)" where
  "partition_events fromisoformat today [] = Inr ([], [])"
| "partition_events fromisoformat today (event # events) =
     (case scheduled_datetime fromisoformat event of
        Inl e \<Rightarrow> Inl e
      | Inr start \<Rightarrow>
          (case partition_events fromisoformat today events of
             Inl e \<Rightarrow> Inl e
           | Inr (upcoming, past) \<Rightarrow>
               (case start of
                  None \<Rightarrow> Inr (event # upcoming, past)
                | Some dt \<Rightarrow>
                    if date_of (wall dt) \<ge> today then Inr (event # upcoming, past)
                    else Inr (upcoming, event # past))))"

definition split_events_by_time :: "(string \<Rightarrow> pydatetime option) \<Rightarrow> int \<Rightarrow> EventRecord list
    \<Rightarrow> error + (EventRecord list \<times> EventRecord list)" where
  "split_events_by_time fromisoformat today events =
     (case partition_events fromisoformat today events of
        Inl e \<Rightarrow> Inl e
      | Inr (upcoming, past) \<Rightarrow>
          (case sort_events fromisoformat upcoming of
             Inl e \<Rightarrow> Inl e
           | Inr upcoming_sorted \<Rightarrow>
               (case keyed_events fromisoformat DATETIME_MIN (rev past) of
                  Inl e \<Rightarrow> Inl e
                | Inr keyed \<Rightarrow>
                    (case sorted_by_datetime keyed of
                       Inl e \<Rightarrow> Inl e
                     | Inr ks \<Rightarrow> Inr (upcoming_sorted, rev (map snd ks))))))"

text \<open>The events that \<open>event_visible_for_user\<close> lets the viewer see, in their order.\<close>

fun visible_events :: "int list \<Rightarrow> directions \<Rightarrow> doc option \<Rightarrow> EventRecord list
    \<Rightarrow> error + EventRecord list" where
  "visible_events admins dirs user [] = Inr []"
| "visible_events admins dirs user (event # events) =
     (case event_visible_for_user admins dirs event user of
        Inl e \<Rightarrow> Inl e
      | Inr visible \<Rightarrow>
          (case visible_events admins dirs user events of
             Inl e \<Rightarrow> Inl e
           | Inr rest \<Rightarrow> Inr (if visible then event # rest else rest)))"

text \<open>The slice \<open>xs[a:b]\<close> of a list.\<close>

definition py_slice :: "'a list \<Rightarrow> int \<Rightarrow> int \<Rightarrow> 'a list" where
  "py_slice xs a b =
     (let n = int (length xs);
          a' = (if a < 0 then max (a + n) 0 else min a n);
          b' = (if b < 0 then max (b + n) 0 else min b n)
      in take (nat (b' - a')) (drop (nat a') xs))"

section \<open>The callback handlers (handlers/events)\<close>

text \<open>
  What a handler needs from outside the store during one call:
  \<^item> the constants \<open>ADMIN_IDS\<close> and \<open>EVENTS_PAGE_SIZE\<close> and the direction tables of
    \<open>constants.py\<close> (that file is not among the sources, so they are parameters;
    \<open>ADMIN_IDS\<close> is taken to be a list of ints, \<open>EVENTS_PAGE_SIZE\<close> an int);
  \<^item> the collection \<open>users\<close>, which the handlers of this theory do not write;
  \<^item> the text of \<open>str()\<close> for values that are not strings, \<open>datetime.fromisoformat\<close>, and
    \<open>datetime.strptime(text, "%Y-%m-%d %H:%M").isoformat()\<close>, which is \<open>None\<close> where
    \<open>strptime\<close> raises ValueError;
  \<^item> the answer of the database to a value bound to a \<open>TEXT\<close> column;
  \<^item> the clock readings: \<open>_utcnow_iso()\<close> inside the store's write, \<open>_utcnow_iso()\<close> again
    when \<open>notify_admins\<close> writes, \<open>datetime.now().isoformat()\<close> in the handler, and the day
    \<open>datetime.now().date()\<close> of the list view;
  \<^item> the transport: \<open>bot.send_message\<close> to a chat gives the id of the message sent, or
    raises, which is \<open>None\<close>.
\<close>

record environ =
  ADMIN_IDS :: "int list"
  EVENTS_PAGE_SIZE :: int
  direction_tables :: directions
  users :: "doc list"
  str_other :: "json \<Rightarrow> string"
  parse_iso :: "string \<Rightarrow> pydatetime option"
  strptime_isoformat :: "string \<Rightarrow> string option"
  bind_text :: "json \<Rightarrow> error option"
  utcnow :: string
  utcnow_notify :: string
  localnow :: string
  today :: int
  send_message :: "int \<Rightarrow> int option"

text \<open>
  The text a handler passes to \<open>callback.answer\<close>, one constructor per text of the
  source (the texts are Russian; their meaning is given here):
  \<^item> \<open>NoText\<close>: \<open>callback.answer()\<close> without a text, on malformed callback data;
  \<^item> \<open>NoRights\<close>: "not enough rights" (alert);
  \<^item> \<open>NotFound\<close>: "event not found" (alert);
  \<^item> \<open>UpdateFailed\<close>: "could not update the event" (alert);
  \<^item> \<open>AlreadyApproved\<close>: "already approved";
  \<^item> \<open>AlreadyRejected\<close>: "the event is already rejected";
  \<^item> \<open>ApprovedOk\<close>: "event approved";
  \<^item> \<open>RejectedOk\<close>: "event rejected";
  \<^item> \<open>SignupClosed\<close>: "registration is not available yet" (alert);
  \<^item> \<open>AlreadySignedUp\<close>: "you are already signed up for the event";
  \<^item> \<open>SignedUp\<close>: "you have signed up for the event";
  \<^item> \<open>NotSignedUp\<close>: "you are not signed up for this event";
  \<^item> \<open>SignedOff\<close>: "registration cancelled";
  \<^item> \<open>Resubmitted\<close>: "event sent to moderation";
  \<^item> \<open>DraftIncomplete\<close>: "could not assemble the event data" (alert);
  \<^item> \<open>Submitted\<close>: "sent to moderation".
  \<open>show_alert\<close> tells which of them are raised as alerts (\<open>show_alert=True\<close>). A handler
  that raises gives \<open>Inl\<close> of the exception. The messages a handler edits or sends besides
  its answer are modelled as far as building them raises; \<open>callback.answer\<close>, the session
  of the dialogue (\<open>state.clear()\<close>) and the notice to the creator, which is sent inside a
  \<open>try\<close> that catches everything, have no part in the result.
\<close>

datatype answer =
    NoText | NoRights | NotFound | UpdateFailed
  | AlreadyApproved | AlreadyRejected | ApprovedOk | RejectedOk
  | SignupClosed | AlreadySignedUp | SignedUp | NotSignedUp | SignedOff
  | Resubmitted | DraftIncomplete | Submitted

definition show_alert :: "answer \<Rightarrow> bool" where
  "show_alert a =
     (a \<in> {NoRights, NotFound, UpdateFailed, SignupClosed, DraftIncomplete})"

text \<open>The note texts of the reject and the resubmit handlers, as UTF-8 bytes.\<close>

definition NOTE_REJECTED :: string where
  "NOTE_REJECTED =
     [CHR 0xD0, CHR 0xA1, CHR 0xD0, CHR 0xBE, CHR 0xD0, CHR 0xB1, CHR 0xD1, CHR 0x8B,
      CHR 0xD1, CHR 0x82, CHR 0xD0, CHR 0xB8, CHR 0xD0, CHR 0xB5, CHR 0x20, CHR 0xD0,
      CHR 0xBE, CHR 0xD1, CHR 0x82, CHR 0xD0, CHR 0xBA, CHR 0xD0, CHR 0xBB, CHR 0xD0,
      CHR 0xBE, CHR 0xD0, CHR 0xBD, CHR 0xD0, CHR 0xB5, CHR 0xD0, CHR 0xBD, CHR 0xD0,
      CHR 0xBE, CHR 0x20, CHR 0xD0, CHR 0xB0, CHR 0xD0, CHR 0xB4, CHR 0xD0, CHR 0xBC,
      CHR 0xD0, CHR 0xB8, CHR 0xD0, CHR 0xBD, CHR 0xD0, CHR 0xB8, CHR 0xD1, CHR 0x81,
      CHR 0xD1, CHR 0x82, CHR 0xD1, CHR 0x80, CHR 0xD0, CHR 0xB0, CHR 0xD1, CHR 0x82,
      CHR 0xD0, CHR 0xBE, CHR 0xD1, CHR 0x80, CHR 0xD0, CHR 0xBE, CHR 0xD0, CHR 0xBC,
      CHR 0x2E]"

definition NOTE_RESUBMITTED :: string where
  "NOTE_RESUBMITTED =
     [CHR 0xD0, CHR 0xA1, CHR 0xD0, CHR 0xBE, CHR 0xD0, CHR 0xB1, CHR 0xD1, CHR 0x8B,
      CHR 0xD1, CHR 0x82, CHR 0xD0, CHR 0xB8, CHR 0xD0, CHR 0xB5, CHR 0x20, CHR 0xD0,
      CHR 0xBE, CHR 0xD1, CHR 0x82, CHR 0xD0, CHR 0xBF, CHR 0xD1, CHR 0x80, CHR 0xD0,
      CHR 0xB0, CHR 0xD0, CHR 0xB2, CHR 0xD0, CHR 0xBB, CHR 0xD0, CHR 0xB5, CHR 0xD0,
      CHR 0xBD, CHR 0xD0, CHR 0xBE, CHR 0x20, CHR 0xD0, CHR 0xBD, CHR 0xD0, CHR 0xB0,
      CHR 0x20, CHR 0xD0, CHR 0xBF, CHR 0xD0, CHR 0xBE, CHR 0xD0, CHR 0xB2, CHR 0xD1,
      CHR 0x82, CHR 0xD0, CHR 0xBE, CHR 0xD1, CHR 0x80, CHR 0xD0, CHR 0xBD, CHR 0xD1,
      CHR 0x83, CHR 0xD1, CHR 0x8E, CHR 0x20, CHR 0xD0, CHR 0xBC, CHR 0xD0, CHR 0xBE,
      CHR 0xD0, CHR 0xB4, CHR 0xD0, CHR 0xB5, CHR 0xD1, CHR 0x80, CHR 0xD0, CHR 0xB0,
      CHR 0xD1, CHR 0x86, CHR 0xD0, CHR 0xB8, CHR 0xD1, CHR 0x8E, CHR 0x2E]"

subsection \<open>Callback data\<close>

text \<open>\<open>data.split(":")\<close>.\<close>

fun split_colon :: "string \<Rightarrow> string list" where
  "split_colon [] = [[]]"
| "split_colon (c # cs) =
     (if c = CHR '':'' then [] # split_colon cs
      else (case split_colon cs of [] \<Rightarrow> [[c]] | p # ps \<Rightarrow> (c # p) # ps))"

text \<open>
  \<open>int(callback.data.split(":")[2])\<close> of the approve and the reject handler; an
  IndexError or a ValueError is \<open>None\<close>.
\<close>

definition parse_event_id :: "string \<Rightarrow> int option" where
  "parse_event_id data =
     (let parts = split_colon data
      in if length parts \<le> 2 then None else int_of_str (parts ! 2))"

text \<open>
  The five-part data of the other handlers: \<open>None\<close> where \<open>len(parts) != 5\<close> or one of
  \<open>int(parts[2])\<close>, \<open>int(parts[3])\<close>, \<open>int(parts[4])\<close> raises ValueError.
\<close>

definition parse_event_page :: "string \<Rightarrow> (int \<times> int \<times> int) option" where
  "parse_event_page data =
     (let parts = split_colon data
      in if length parts \<noteq> 5 then None
         else (case int_of_str (parts ! 2) of
                 None \<Rightarrow> None
               | Some event_id \<Rightarrow>
                   (case int_of_str (parts ! 3) of
                      None \<Rightarrow> None
                    | Some page \<Rightarrow>
                        (case int_of_str (parts ! 4) of
                           None \<Rightarrow> None
                         | Some show_past \<Rightarrow> Some (event_id, page, show_past)))))"

subsection \<open>handlers/events/common.py\<close>

definition is_user_registered :: "EventRecord \<Rightarrow> int \<Rightarrow> bool" where
  "is_user_registered event user_id = (user_id \<in> set (attendees event))"

definition can_manage_event :: "int list \<Rightarrow> int \<Rightarrow> EventRecord \<Rightarrow> bool" where
  "can_manage_event admins user_id event =
     (user_id \<in> set admins \<or> py_eq (JInt user_id) (created_by event))"

subsection \<open>handlers/events/listing.py\<close>

text \<open>
  \<open>render_events_view(user_id, page, show_past)\<close>, which gives the text and the keyboard
  of one page of the list; the model gives the events of that page. The keyboard is built
  from formatted strings and raises nothing. \<open>edit_events_message\<close> renders the view and
  edits the message inside a \<open>try\<close> that catches everything.
\<close>

definition render_events_view :: "environ \<Rightarrow> store \<Rightarrow> int \<Rightarrow> int \<Rightarrow> bool
    \<Rightarrow> error + EventRecord list" where
  "render_events_view ctx s user_id page show_past =
     (let user = load_user (users ctx) user_id
      in case list_all_events (str_other ctx) s of
           Inl e \<Rightarrow> Inl e
         | Inr all_events \<Rightarrow>
             (case visible_events (ADMIN_IDS ctx) (direction_tables ctx) user all_events of
                Inl e \<Rightarrow> Inl e
              | Inr events \<Rightarrow>
                  (case split_events_by_time (parse_iso ctx) (today ctx) events of
                     Inl e \<Rightarrow> Inl e
                   | Inr (upcoming, past) \<Rightarrow>
                       (let combined = upcoming @ (if show_past then past else []);
                            total_count = int (length combined);
                            size' = EVENTS_PAGE_SIZE ctx
                        in if total_count = 0 then Inr []
                           else if size' = 0 then Inl ZeroDivisionError
                           else
                             (let total_pages = max 1 ((total_count + size' - 1) div size');
                                  page' = max 0 (min page (total_pages - 1));
                                  start_index = page' * size';
                                  events_page = py_slice combined start_index (start_index + size')
                              in case build_events_message (parse_iso ctx) events_page of
                                   Some e \<Rightarrow> Inl e
                                 | None \<Rightarrow> Inr events_page)))))"

definition edit_events_message :: "environ \<Rightarrow> store \<Rightarrow> int \<Rightarrow> int \<Rightarrow> bool \<Rightarrow> error option" where
  "edit_events_message ctx s user_id page show_past =
     raised (render_events_view ctx s user_id page show_past)"

subsection \<open>handlers/events/details.py\<close>

text \<open>
  \<open>notify_admins\<close>: one notice per administrator. The text of the notice is formatted
  inside the \<open>try\<close> that guards the send, so an event whose text cannot be formatted gets
  no notice at all; a failed send is logged and skipped. The references of the notices
  sent are stored with \<open>update(event.id or 0, ...)\<close>. The driver's treatment of a key that
  is not an int is not modelled: the call is taken to raise there. A record read from a
  row that \<open>insert\<close> wrote has an int id.
\<close>

definition sent_notice :: "environ \<Rightarrow> int \<Rightarrow> json option" where
  "sent_notice ctx admin_id =
     map_option (\<lambda>message_id. JDict [(''chat_id'', JInt admin_id), (''message_id'', JInt message_id)])
       (send_message ctx admin_id)"

definition notify_admins :: "environ \<Rightarrow> store \<Rightarrow> EventRecord \<Rightarrow> error + store" where
  "notify_admins ctx s event =
     (let messages = (if format_event_details (parse_iso ctx) event \<noteq> None then []
                      else List.map_filter (sent_notice ctx) (ADMIN_IDS ctx))
      in if messages = [] then Inr s
         else (case py_or (id_ev event) (JInt 0) of
                 JInt event_id \<Rightarrow>
                   (case update (str_other ctx) (bind_text ctx) (utcnow_notify ctx) s event_id
                           [(''moderation_messages'', JList messages)] of
                      Inl e \<Rightarrow> Inl e
                    | Inr res \<Rightarrow> Inr (snd res))
               | _ \<Rightarrow> Inl DataError))"

definition cb_events_signup :: "environ \<Rightarrow> store \<Rightarrow> int \<Rightarrow> string \<Rightarrow> error + (answer \<times> store)" where
  "cb_events_signup ctx s user_id data =
     (case parse_event_page data of
        None \<Rightarrow> Inr (NoText, s)
      | Some (event_id, page, show_past) \<Rightarrow>
          (case get (str_other ctx) s event_id of
             Inl e \<Rightarrow> Inl e
           | Inr None \<Rightarrow> Inr (NotFound, s)
           | Inr (Some event) \<Rightarrow>
               if \<not> py_eq (status event) (JStr STATUS_APPROVED) then Inr (SignupClosed, s)
               else if is_user_registered event user_id then Inr (AlreadySignedUp, s)
               else (case update (str_other ctx) (bind_text ctx) (utcnow ctx) s event_id
                            [(''attendees'', JList (map JInt (attendees event @ [user_id])))] of
                       Inl e \<Rightarrow> Inl e
                     | Inr (None, s') \<Rightarrow> Inr (UpdateFailed, s')
                     | Inr (Some updated, s') \<Rightarrow>
                         (case render_event_details_message (parse_iso ctx) updated of
                            Some e \<Rightarrow> Inl e
                          | None \<Rightarrow> Inr (SignedUp, s')))))"

definition cb_events_signoff :: "environ \<Rightarrow> store \<Rightarrow> int \<Rightarrow> string \<Rightarrow> error + (answer \<times> store)" where
  "cb_events_signoff ctx s user_id data =
     (case parse_event_page data of
        None \<Rightarrow> Inr (NoText, s)
      | Some (event_id, page, show_past) \<Rightarrow>
          (case get (str_other ctx) s event_id of
             Inl e \<Rightarrow> Inl e
           | Inr None \<Rightarrow> Inr (NotFound, s)
           | Inr (Some event) \<Rightarrow>
               if user_id \<notin> set (attendees event) then Inr (NotSignedUp, s)
               else (case update (str_other ctx) (bind_text ctx) (utcnow ctx) s event_id
                            [(''attendees'',
                              JList (map JInt (filter (\<lambda>uid. uid \<noteq> user_id) (attendees event))))] of
                       Inl e \<Rightarrow> Inl e
                     | Inr (None, s') \<Rightarrow> Inr (UpdateFailed, s')
                     | Inr (Some updated, s') \<Rightarrow>
                         (case render_event_details_message (parse_iso ctx) updated of
                            Some e \<Rightarrow> Inl e
                          | None \<Rightarrow> Inr (SignedOff, s')))))"

definition cb_events_approve :: "environ \<Rightarrow> store \<Rightarrow> int \<Rightarrow> string \<Rightarrow> error + (answer \<times> store)" where
  "cb_events_approve ctx s user_id data =
     (if user_id \<notin> set (ADMIN_IDS ctx) then Inr (NoRights, s)
      else (case parse_event_id data of
              None \<Rightarrow> Inr (NoText, s)
            | Some event_id \<Rightarrow>
                (case get (str_other ctx) s event_id of
                   Inl e \<Rightarrow> Inl e
                 | Inr None \<Rightarrow> Inr (NotFound, s)
                 | Inr (Some event) \<Rightarrow>
                     if py_eq (status event) (JStr STATUS_APPROVED) then Inr (AlreadyApproved, s)
                     else (case update (str_other ctx) (bind_text ctx) (utcnow ctx) s event_id
                                  [(''status'', JStr STATUS_APPROVED),
                                   (''approved_by'', JInt user_id),
                                   (''approved_at'', JStr (localnow ctx)),
                                   (''moderator_note'', JNull)] of
                             Inl e \<Rightarrow> Inl e
                           | Inr (None, s') \<Rightarrow> Inr (UpdateFailed, s')
                           | Inr (Some updated, s') \<Rightarrow>
                               (case update_moderation_messages (parse_iso ctx) updated of
                                  Some e \<Rightarrow> Inl e
                                | None \<Rightarrow> Inr (ApprovedOk, s'))))))"

definition cb_events_reject :: "environ \<Rightarrow> store \<Rightarrow> int \<Rightarrow> string \<Rightarrow> error + (answer \<times> store)" where
  "cb_events_reject ctx s user_id data =
     (if user_id \<notin> set (ADMIN_IDS ctx) then Inr (NoRights, s)
      else (case parse_event_id data of
              None \<Rightarrow> Inr (NoText, s)
            | Some event_id \<Rightarrow>
                (case get (str_other ctx) s event_id of
                   Inl e \<Rightarrow> Inl e
                 | Inr None \<Rightarrow> Inr (NotFound, s)
                 | Inr (Some event) \<Rightarrow>
                     if py_eq (status event) (JStr STATUS_REJECTED) then Inr (AlreadyRejected, s)
                     else (case update (str_other ctx) (bind_text ctx) (utcnow ctx) s event_id
                                  [(''status'', JStr STATUS_REJECTED),
                                   (''approved_by'', JInt user_id),
                                   (''approved_at'', JStr (localnow ctx)),
                                   (''moderator_note'', JStr NOTE_REJECTED)] of
                             Inl e \<Rightarrow> Inl e
                           | Inr (None, s') \<Rightarrow> Inr (UpdateFailed, s')
                           | Inr (Some updated, s') \<Rightarrow>
                               (case update_moderation_messages (parse_iso ctx) updated of
                                  Some e \<Rightarrow> Inl e
                                | None \<Rightarrow> Inr (RejectedOk, s'))))))"

subsection \<open>handlers/events/edit.py\<close>

text \<open>
  \<open>cb_events_delete_confirm\<close>, the handler behind the button that sends an event back
  to moderation. After the write and the notices it shows the list of events again.
\<close>

definition cb_events_delete_confirm :: "environ \<Rightarrow> store \<Rightarrow> int \<Rightarrow> string
    \<Rightarrow> error + (answer \<times> store)" where
  "cb_events_delete_confirm ctx s user_id data =
     (case parse_event_page data of
        None \<Rightarrow> Inr (NoText, s)
      | Some (event_id, page, show_past) \<Rightarrow>
          (case get (str_other ctx) s event_id of
             Inl e \<Rightarrow> Inl e
           | Inr None \<Rightarrow> Inr (NotFound, s)
           | Inr (Some event) \<Rightarrow>
               if \<not> can_manage_event (ADMIN_IDS ctx) user_id event then Inr (NoRights, s)
               else (case update (str_other ctx) (bind_text ctx) (utcnow ctx) s event_id
                            [(''status'', JStr STATUS_PENDING),
                             (''approved_by'', JNull),
                             (''approved_at'', JNull),
                             (''moderator_note'', JStr NOTE_RESUBMITTED),
                             (''attendees'', JList []),
                             (''moderation_messages'', JList [])] of
                       Inl e \<Rightarrow> Inl e
                     | Inr (None, s') \<Rightarrow> Inr (UpdateFailed, s')
                     | Inr (Some updated, s') \<Rightarrow>
                         (case notify_admins ctx s' updated of
                            Inl e \<Rightarrow> Inl e
                          | Inr s'' \<Rightarrow>
                              (case edit_events_message ctx s'' user_id page (show_past \<noteq> 0) of
                                 Some e \<Rightarrow> Inl e
                               | None \<Rightarrow> Inr (Resubmitted, s''))))))"

subsection \<open>handlers/events/creation.py\<close>

text \<open>
  \<open>cb_creation_submit\<close>: \<open>data\<close> is what the wizard has collected, \<open>full_name\<close> and
  \<open>username\<close> are those of the acting user (\<open>username\<close> may be \<open>None\<close>). The payload is
  \<open>None\<close> where the date or a time is missing; a \<open>strptime\<close> that raises is a ValueError.
  After the insert the handler reads the page of the list it came from, shows that list,
  answers, and sends the notices.
\<close>

definition submit_payload :: "environ \<Rightarrow> int \<Rightarrow> string \<Rightarrow> string option \<Rightarrow> doc
    \<Rightarrow> error + doc option" where
  "submit_payload ctx user_id full_name username data =
     (let event_date = get0 data ''event_date'';
          start' = get0 data ''start_time'';
          end' = get0 data ''end_time''
      in if \<not> (truthy event_date \<and> truthy start' \<and> truthy end') then Inr None
         else (case strptime_isoformat ctx
                      (format_value (str_other ctx) event_date @ '' '' @
                       format_value (str_other ctx) start') of
                 None \<Rightarrow> Inl ValueError
               | Some starts_at' \<Rightarrow>
                   (case strptime_isoformat ctx
                           (format_value (str_other ctx) event_date @ '' '' @
                            format_value (str_other ctx) end') of
                      None \<Rightarrow> Inl ValueError
                    | Some ends_at' \<Rightarrow>
                        Inr (Some
                          [(''title'', get_default data ''title'' (JStr '''')),
                           (''starts_at'', JStr starts_at'),
                           (''ends_at'', JStr ends_at'),
                           (''location'', get_default data ''location'' (JStr '''')),
                           (''short_description'', get_default data ''short_description'' (JStr '''')),
                           (''tags'', get_default data ''tags'' (JList [])),
                           (''status'', JStr STATUS_PENDING),
                           (''created_by'', JInt user_id),
                           (''creator_name'', JStr full_name),
                           (''creator_username'',
                              JStr (case username of None \<Rightarrow> '''' | Some u \<Rightarrow> u)),
                           (''contact_name'', get_default data ''contact_name'' (JStr '''')),
                           (''contact_url'', get_default data ''contact_url'' (JStr '''')),
                           (''registration_link'', get_default data ''registration_link'' (JStr ''''))]))))"

definition cb_creation_submit :: "environ \<Rightarrow> store \<Rightarrow> int \<Rightarrow> string \<Rightarrow> string option \<Rightarrow> doc
    \<Rightarrow> error + (answer \<times> store)" where
  "cb_creation_submit ctx s user_id full_name username data =
     (case submit_payload ctx user_id full_name username data of
        Inl e \<Rightarrow> Inl e
      | Inr None \<Rightarrow> Inr (DraftIncomplete, s)
      | Inr (Some payload) \<Rightarrow>
          (case insert (str_other ctx) (bind_text ctx) (utcnow ctx) s (Mapping payload) of
             Inl e \<Rightarrow> Inl e
           | Inr (event, s') \<Rightarrow>
               (case py_int (get_default data ''origin_page'' (JInt 0)) of
                  Inl e \<Rightarrow> Inl e
                | Inr page \<Rightarrow>
                    (case py_int (get_default data ''origin_show_past'' (JInt 0)) of
                       Inl e \<Rightarrow> Inl e
                     | Inr show \<Rightarrow>
                         (case edit_events_message ctx s' user_id page (show \<noteq> 0) of
                            Some e \<Rightarrow> Inl e
                          | None \<Rightarrow>
                              (case notify_admins ctx s' event of
                                 Inl e \<Rightarrow> Inl e
                               | Inr s'' \<Rightarrow> Inr (Submitted, s'')))))))"

section \<open>The tag vocabulary (handlers/events/common.py)\<close>

text \<open>
  \<open>EVENT_TAGS\<close>, a list of pairs (slug, title), is a constant of \<open>constants.py\<close>, which is
  not among the sources: it is a parameter. \<open>TAG_ORDER\<close> lists its slugs.
\<close>

definition TAG_ORDER :: "(string \<times> string) list \<Rightarrow> string list" where
  "TAG_ORDER event_tags = map fst event_tags"

text \<open>An object that \<open>set(...)\<close> can hold: a list or a dict raises TypeError there.\<close>

fun hashable :: "json \<Rightarrow> bool" where
  "hashable (JList _) = False"
| "hashable (JDict _) = False"
| "hashable _ = True"

text \<open>
  \<open>normalize_tags(tags)\<close>:
  \<^verbatim>\<open>
  selected = set(tags)
  return [slug for slug in TAG_ORDER if slug in selected]
  \<close>
\<close>

definition normalize_tags :: "(string \<times> string) list \<Rightarrow> json \<Rightarrow> error + string list" where
  "normalize_tags event_tags tags' =
     (case py_iter tags' of
        Inl e \<Rightarrow> Inl e
      | Inr selected \<Rightarrow>
          if \<not> list_all hashable selected then Inl TypeError
          else Inr (filter (\<lambda>slug. JStr slug \<in> set selected) (TAG_ORDER event_tags)))"

section \<open>The reminder sweep (handlers/notifications.py)\<close>

text \<open>
  The sweep reads the clock in the time zone of the service. The standard library and
  the transport enter as parameters: \<open>datetime.fromisoformat\<close>, the offset of the zone at
  a UTC instant, and \<open>deliver user events\<close>, which is false where \<open>bot.send_message\<close>
  raises. The text of a reminder is not modelled beyond the exceptions that building it
  raises: a reminder is the list of events it summarises.
\<close>

record sweep_env =
  fromisoformat :: "string \<Rightarrow> pydatetime option"
  tz_offset :: "int \<Rightarrow> int"
  deliver :: "int \<Rightarrow> EventRecord list \<Rightarrow> bool"

text \<open>
  \<open>_ensure_local(dt, tzinfo)\<close>: a naive value keeps its reading, an aware one is
  converted. Every result carries the one \<open>tzinfo\<close> of the service, so its date and its
  order against other results are those of the wall-clock reading, which is returned.
\<close>

definition ensure_local :: "sweep_env \<Rightarrow> pydatetime \<Rightarrow> int" where
  "ensure_local env dt =
     (case utcoffset dt of
        None \<Rightarrow> wall dt
      | Some off \<Rightarrow> (let utc = wall dt - off in utc + tz_offset env utc))"

fun events_for_tomorrow :: "sweep_env \<Rightarrow> int \<Rightarrow> EventRecord list \<Rightarrow> error + EventRecord list" where
  "events_for_tomorrow env tomorrow_date [] = Inr []"
| "events_for_tomorrow env tomorrow_date (event # all_events) =
     (if \<not> py_eq (status event) (JStr STATUS_APPROVED)
      then events_for_tomorrow env tomorrow_date all_events
      else (case scheduled_datetime (fromisoformat env) event of
              Inl e \<Rightarrow> Inl e
            | Inr None \<Rightarrow> events_for_tomorrow env tomorrow_date all_events
            | Inr (Some start) \<Rightarrow>
                (case events_for_tomorrow env tomorrow_date all_events of
                   Inl e \<Rightarrow> Inl e
                 | Inr rest \<Rightarrow>
                     if date_of (ensure_local env start) = tomorrow_date
                     then Inr (event # rest) else Inr rest)))"

text \<open>
  \<open>users_events[user_id].append(event)\<close> on the \<open>defaultdict(list)\<close>, and the two loops
  that fill it. The set \<open>unique_attendees\<close> is visited in an order that Python does not
  specify; the model visits it in the order of first occurrence.
\<close>

definition append_event :: "EventRecord \<Rightarrow> (int \<times> EventRecord list) list \<Rightarrow> int
    \<Rightarrow> (int \<times> EventRecord list) list" where
  "append_event event users_events user_id =
     (case map_of users_events user_id of
        None \<Rightarrow> users_events @ [(user_id, [event])]
      | Some evs \<Rightarrow> AList.update user_id (evs @ [event]) users_events)"

definition group_by_user :: "EventRecord list \<Rightarrow> (int \<times> EventRecord list) list" where
  "group_by_user events =
     foldl (\<lambda>users_events event.
              foldl (append_event event) users_events (remdups (attendees event)))
       [] events"

text \<open>
  The key of \<open>sorted\<close>: \<open>_ensure_local(item.scheduled_datetime() or now, tz)\<close>, and the
  stable sort by it.
\<close>

definition start_key :: "sweep_env \<Rightarrow> int \<Rightarrow> EventRecord \<Rightarrow> error + int" where
  "start_key env now event =
     (case scheduled_datetime (fromisoformat env) event of
        Inl e \<Rightarrow> Inl e
      | Inr None \<Rightarrow> Inr now
      | Inr (Some start) \<Rightarrow> Inr (ensure_local env start))"

fun keyed :: "sweep_env \<Rightarrow> int \<Rightarrow> EventRecord list \<Rightarrow> error + (int \<times> EventRecord) list" where
  "keyed env now [] = Inr []"
| "keyed env now (event # events) =
     (case start_key env now event of
        Inl e \<Rightarrow> Inl e
      | Inr k \<Rightarrow> (case keyed env now events of
                    Inl e \<Rightarrow> Inl e
                  | Inr rest \<Rightarrow> Inr ((k, event) # rest)))"

definition sorted_events :: "sweep_env \<Rightarrow> int \<Rightarrow> EventRecord list \<Rightarrow> error + EventRecord list" where
  "sorted_events env now user_events =
     (case keyed env now user_events of
        Inl e \<Rightarrow> Inl e
      | Inr ks \<Rightarrow> Inr (map snd (sort_key fst ks)))"

text \<open>
  \<open>_format_event_block\<close>, as far as it raises: \<open>escape\<close> of a title that is truthy and not
  a string, the two dates, \<open>escape\<close> of the location, and \<open>strip\<close> of a description that
  is truthy and not a string.
\<close>

definition format_event_block :: "sweep_env \<Rightarrow> EventRecord \<Rightarrow> error option" where
  "format_event_block env event =
     first_error
       [(if truthy (title event) then escape (title event) else None),
        raised (scheduled_datetime (fromisoformat env) event),
        raised (end_datetime (fromisoformat env) event),
        (if truthy (location event) then escape (location event) else None),
        (if truthy (short_description event) \<and> \<not> is_str (short_description event)
         then Some AttributeError else None)]"

text \<open>
  The loop over \<open>users_events.items()\<close>: the user's events are sorted and their blocks
  formatted, outside any \<open>try\<close>; one reminder with all of them is sent, and a send that
  raises is logged and the loop goes on. An attempt is the user, the events of the
  reminder and whether it was delivered.
\<close>

fun send_all :: "sweep_env \<Rightarrow> int \<Rightarrow> (int \<times> EventRecord list) list
    \<Rightarrow> error + (int \<times> EventRecord list \<times> bool) list" where
  "send_all env now [] = Inr []"
| "send_all env now ((user_id, user_events) # rest) =
     (case sorted_events env now user_events of
        Inl e \<Rightarrow> Inl e
      | Inr evs \<Rightarrow>
          (case first_error (map (format_event_block env) evs) of
             Some e \<Rightarrow> Inl e
           | None \<Rightarrow>
               (case send_all env now rest of
                  Inl e \<Rightarrow> Inl e
                | Inr attempts \<Rightarrow>
                    if evs = [] then Inr attempts
                    else Inr ((user_id, evs, deliver env user_id evs) # attempts))))"

text \<open>
  \<open>send_tomorrows_reminders\<close>; \<open>now\<close> is the local wall-clock reading of
  \<open>datetime.now(self.timezone)\<close>. The result lists the attempts; \<open>sent_count\<close> is the
  number of those delivered.
\<close>

definition send_tomorrows_reminders :: "sweep_env \<Rightarrow> (json \<Rightarrow> string) \<Rightarrow> store \<Rightarrow> int
    \<Rightarrow> error + (int \<times> EventRecord list \<times> bool) list" where
  "send_tomorrows_reminders env str s now =
     (let tomorrow = now + day
      in case list_all_events str s of
           Inl e \<Rightarrow> Inl e
         | Inr all_events \<Rightarrow>
             (case events_for_tomorrow env (date_of tomorrow) all_events of
                Inl e \<Rightarrow> Inl e
              | Inr events \<Rightarrow>
                  if events = [] then Inr []
                  else (let users_events = group_by_user events
                        in if users_events = [] then Inr []
                           else send_all env now users_events)))"

definition sent_count :: "(int \<times> EventRecord list \<times> bool) list \<Rightarrow> nat" where
  "sent_count attempts = length (filter (\<lambda>a. snd (snd a)) attempts)"

section \<open>Auxiliary definitions for the proofs\<close>

text \<open>The keys whose \<open>None\<close> value \<open>_prepare_payload\<close> replaces by the empty string.\<close>

definition six_keys :: "string list" where
  "six_keys = [''starts_at'', ''ends_at'', ''contact'', ''contact_name'', ''contact_url'',
               ''registration_link'']"

text \<open>The list of tags that \<open>_prepare_payload\<close> writes.\<close>

definition prepared_tags :: "doc \<Rightarrow> json list" where
  "prepared_tags d = (case prepare_tags d of JList xs \<Rightarrow> xs | _ \<Rightarrow> [])"

text \<open>
  The references (chat id, message id) of the notices that \<open>notify_admins\<close> gets
  delivered, in the order of \<open>ADMIN_IDS\<close>.
\<close>

definition delivered_notices :: "environ \<Rightarrow> (json \<times> json) list" where
  "delivered_notices ctx =
     List.map_filter
       (\<lambda>admin_id. map_option (\<lambda>message_id. (JInt admin_id, JInt message_id))
                      (send_message ctx admin_id))
       (ADMIN_IDS ctx)"

text \<open>The document that \<open>insert\<close> prepares: \<open>to_dict\<close> of a record, or the mapping itself.\<close>

definition insert_doc :: "insert_arg \<Rightarrow> doc" where
  "insert_doc event = (case event of Record r \<Rightarrow> to_dict r | Mapping d \<Rightarrow> d)"

text \<open>
  The integers that \<open>int()\<close> gives for the entries of a list, in order, without the
  entries for which \<open>int()\<close> raises.
\<close>

definition coerced :: "json list \<Rightarrow> int list" where
  "coerced vs = List.map_filter (\<lambda>v. case py_int v of Inl e \<Rightarrow> None | Inr i \<Rightarrow> Some i) vs"

text \<open>The entries that the loop over \<open>data.get("attendees") or []\<close> visits.\<close>

definition raw_attendees :: "doc \<Rightarrow> error + json list" where
  "raw_attendees d = py_iter (py_or (get0 d ''attendees'') (JList []))"

text \<open>
  The start of an event as the sweep has to read it: the text of \<open>starts_at\<close>, or of
  \<open>scheduled_at\<close> where \<open>starts_at\<close> is empty, parsed; a reading without an offset is taken
  as a reading of the service's clock, a reading with an offset is moved to the instant
  in UTC and from there to the service's zone.
\<close>

definition local_reading :: "(int \<Rightarrow> int) \<Rightarrow> pydatetime \<Rightarrow> int" where
  "local_reading zone dt =
     (case utcoffset dt of
        None \<Rightarrow> wall dt
      | Some off \<Rightarrow> (wall dt - off) + zone (wall dt - off))"

definition local_start :: "sweep_env \<Rightarrow> EventRecord \<Rightarrow> int option" where
  "local_start env event =
     (case (if truthy (starts_at event) then starts_at event else scheduled_at event) of
        JStr text \<Rightarrow>
          if text = [] then None
          else map_option (local_reading (tz_offset env)) (fromisoformat env text)
      | _ \<Rightarrow> None)"

text \<open>
  An event that the sweep has to select for the date \<open>d\<close>: it is approved and its start
  falls on \<open>d\<close>. The start by which a reminder has to order an event (the time of the
  sweep for an event without one).
\<close>

definition starts_on :: "sweep_env \<Rightarrow> int \<Rightarrow> EventRecord \<Rightarrow> bool" where
  "starts_on env d event =
     (status event = JStr STATUS_APPROVED \<and>
      (case local_start env event of None \<Rightarrow> False | Some w \<Rightarrow> date_of w = d))"

definition start_of :: "sweep_env \<Rightarrow> int \<Rightarrow> EventRecord \<Rightarrow> int" where
  "start_of env now event = (case local_start env event of None \<Rightarrow> now | Some w \<Rightarrow> w)"

text \<open>An attempt without its outcome: the recipient and the events of the reminder.\<close>

definition reminder_of :: "int \<times> EventRecord list \<times> bool \<Rightarrow> int \<times> EventRecord list" where
  "reminder_of a = (fst a, fst (snd a))"

section \<open>Concrete data for the worked examples\<close>

text \<open>
  Direction tables for the examples (the tables of \<open>constants.py\<close> are not among the
  sources), and the profile of a user with a direction.
\<close>

definition example_dirs :: directions where
  "example_dirs =
     \<lparr> BACHELOR_DIRECTIONS = [''Applied Mathematics''],
       MASTER_DIRECTIONS = [''Data Science''],
       POSTGRADUATE_DIRECTION = ''Postgraduate'' \<rparr>"

definition example_user :: "int \<Rightarrow> string \<Rightarrow> doc" where
  "example_user uid direction =
     [(''tg_id'', JInt uid), (''name'', JStr ''User''), (''direction'', JStr direction)]"

text \<open>
  The readings of the texts that the examples use as starts and ends: 10 March 2025 at
  9:00, 10:00, 18:00 and 20:00, 11 March 2025 at 9:00, all without an offset, and 9 March
  2025 at 22:30 in UTC.
\<close>

definition example_fromisoformat :: "string \<Rightarrow> pydatetime option" where
  "example_fromisoformat text =
     (if text = ''2025-03-10T09:00:00'' then Some \<lparr> wall = 63877194000000000, utcoffset = None \<rparr>
      else if text = ''2025-03-10T10:00:00'' then Some \<lparr> wall = 63877197600000000, utcoffset = None \<rparr>
      else if text = ''2025-03-10T18:00:00'' then Some \<lparr> wall = 63877226400000000, utcoffset = None \<rparr>
      else if text = ''2025-03-10T20:00:00'' then Some \<lparr> wall = 63877233600000000, utcoffset = None \<rparr>
      else if text = ''2025-03-11T09:00:00'' then Some \<lparr> wall = 63877280400000000, utcoffset = None \<rparr>
      else if text = ''2025-03-09T22:30:00+00:00''
        then Some \<lparr> wall = 63877156200000000, utcoffset = Some 0 \<rparr>
      else None)"

text \<open>
  An environment with the administrators 1 and 2, where the notice to administrator 1
  is delivered as message 501 and the one to administrator 2 fails, where the database
  stores a string in a \<open>TEXT\<close> column and refuses any other value, and where the day is
  9 March 2025; and a store with three events: 10 approved with the attendee 7, 11
  rejected, 12 pending.
\<close>

definition example_env :: environ where
  "example_env =
     \<lparr> ADMIN_IDS = [1, 2],
       EVENTS_PAGE_SIZE = 5,
       direction_tables = example_dirs,
       users = [example_user 3 ''Applied Mathematics'', example_user 7 ''Data Science''],
       str_other = (\<lambda>v. ''?''),
       parse_iso = example_fromisoformat,
       strptime_isoformat =
         (\<lambda>text. if length text = 16 then Some (take 10 text @ ''T'' @ drop 11 text @ '':00'')
                  else None),
       bind_text = (\<lambda>v. if is_str v then None else Some DataError),
       utcnow = ''2025-03-09T17:05:00+00:00'',
       utcnow_notify = ''2025-03-09T17:05:01+00:00'',
       localnow = ''2025-03-09T20:05:00'',
       today = 739318,
       send_message = (\<lambda>chat. if chat = 1 then Some 501 else None) \<rparr>"

definition example_event :: "int \<Rightarrow> string \<Rightarrow> json list \<Rightarrow> doc" where
  "example_event event_id st att =
     [(''id'', JInt event_id),
      (''title'', JStr ''Seminar''),
      (''starts_at'', JStr ''2025-03-10T18:00:00''),
      (''ends_at'', JStr ''2025-03-10T20:00:00''),
      (''tags'', JList [JStr ''bachelor'']),
      (''attendees'', JList att),
      (''status'', JStr st),
      (''created_by'', JInt 3),
      (''created_at'', JStr ''2025-03-01T10:00:00+00:00''),
      (''updated_at'', JStr ''2025-03-02T10:00:00+00:00''),
      (''approved_by'', JInt 1),
      (''approved_at'', JStr ''2025-03-02T13:00:00''),
      (''moderator_note'', JNull),
      (''moderation_messages'', JList [JDict [(''chat_id'', JInt 1), (''message_id'', JInt 400)]])]"

definition example_store :: store where
  "example_store =
     \<lparr> rows = [(10, example_event 10 ''approved'' [JInt 7]),
               (11, example_event 11 ''rejected'' []),
               (12, example_event 12 ''pending'' [])],
       next_id = 13 \<rparr>"

text \<open>The record that \<open>get\<close> reads from a row \<open>example_event event_id st att\<close>.\<close>

definition example_record :: "int \<Rightarrow> string \<Rightarrow> int list \<Rightarrow> EventRecord" where
  "example_record event_id st att =
     \<lparr> id_ev = JInt event_id, title = JStr ''Seminar'',
       starts_at = JStr ''2025-03-10T18:00:00'', ends_at = JStr ''2025-03-10T20:00:00'',
       location = JStr '''', short_description = JStr '''', contact = JStr '''',
       contact_name = JStr '''', contact_url = JStr '''', registration_link = JStr '''',
       attendees = att, tags = [JStr ''bachelor''], status = JStr st,
       created_by = JInt 3, creator_name = JStr '''', creator_username = JStr '''',
       created_at = JStr ''2025-03-01T10:00:00+00:00'',
       updated_at = JStr ''2025-03-02T10:00:00+00:00'',
       approved_by = JInt 1, approved_at = JStr ''2025-03-02T13:00:00'',
       moderator_note = JNull, moderation_messages = [(JInt 1, JInt 400)],
       scheduled_at = JStr ''2025-03-10T18:00:00'' \<rparr>"

text \<open>
  Reading the outcome of a handler call in the examples: the answer, the store it
  leaves (the empty store where the call raised), and a record of that store.
\<close>

definition answer_of :: "error + (answer \<times> store) \<Rightarrow> answer option" where
  "answer_of res = (case res of Inl e \<Rightarrow> None | Inr out \<Rightarrow> Some (fst out))"

definition store_of :: "error + (answer \<times> store) \<Rightarrow> store" where
  "store_of res = (case res of Inl e \<Rightarrow> \<lparr> rows = [], next_id = 0 \<rparr> | Inr out \<Rightarrow> snd out)"

definition record_at :: "environ \<Rightarrow> store \<Rightarrow> int \<Rightarrow> EventRecord option" where
  "record_at ctx s event_id =
     (case get (str_other ctx) s event_id of Inl e \<Rightarrow> None | Inr ro \<Rightarrow> ro)"

text \<open>
  What the wizard has collected for the event of the scenario (10 March 2025, 18:00 to
  20:00, tag \<open>bachelor\<close>), and the payload that the confirmation step builds from it for
  the user 3.
\<close>

definition example_draft :: doc where
  "example_draft =
     [(''title'', JStr ''Seminar''),
      (''event_date'', JStr ''2025-03-10''),
      (''start_time'', JStr ''18:00''),
      (''end_time'', JStr ''20:00''),
      (''location'', JStr ''Room 1''),
      (''short_description'', JStr ''Talk''),
      (''tags'', JList [JStr ''bachelor'']),
      (''contact_name'', JStr ''Ann''),
      (''contact_url'', JStr ''https://t.me/ann''),
      (''registration_link'', JStr '''')]"

definition example_payload :: doc where
  "example_payload =
     [(''title'', JStr ''Seminar''),
      (''starts_at'', JStr ''2025-03-10T18:00:00''),
      (''ends_at'', JStr ''2025-03-10T20:00:00''),
      (''location'', JStr ''Room 1''),
      (''short_description'', JStr ''Talk''),
      (''tags'', JList [JStr ''bachelor'']),
      (''status'', JStr ''pending''),
      (''created_by'', JInt 3),
      (''creator_name'', JStr ''Ann''),
      (''creator_username'', JStr ''ann''),
      (''contact_name'', JStr ''Ann''),
      (''contact_url'', JStr ''https://t.me/ann''),
      (''registration_link'', JStr '''')]"

text \<open>
  Modelled from the spec: the constant \<open>EVENT_TAGS\<close> of \<open>constants.py\<close> is not among the
  sources. The spec names the tags \<open>bachelor\<close> and \<open>master\<close> and the tracks \<open>bachelor\<close>,
  \<open>master\<close> and \<open>postgraduate\<close>; the titles here stand for the titles shown to users.
\<close>

definition example_tags :: "(string \<times> string) list" where
  "example_tags =
     [(''bachelor'', ''Bachelor''), (''master'', ''Master''), (''postgraduate'', ''Postgraduate'')]"

text \<open>A document with a tag outside the vocabulary and a tag that is not a string.\<close>

definition example_bogus :: doc where
  "example_bogus = [(''title'', JStr ''x''), (''tags'', JList [JStr ''bogus'', JInt 3])]"

text \<open>
  A document whose attendees are the int 5, the strings \<open>"7"\<close> and \<open>"x"\<close>, \<open>None\<close>, the
  float 3.5, \<open>True\<close>, a list, the digit 9 after the control character \<open>0x1C\<close> (which
  \<open>int()\<close> refuses), the Arabic-Indic digit three, and \<open>" 1_0 "\<close>; and a store that holds
  it in row 20.
\<close>

definition example_mixed :: doc where
  "example_mixed =
     [(''title'', JStr ''Mixed''),
      (''attendees'',
        JList [JInt 5, JStr ''7'', JStr ''x'', JNull, JFloat (Finite (7 / 2)), JBool True,
               JList [JInt 1], JStr [CHR 0x1C, CHR ''9''], JStr [CHR 0xD9, CHR 0xA3],
               JStr '' 1_0 ''])]"

definition example_mixed_store :: store where
  "example_mixed_store = \<lparr> rows = [(20, example_mixed)], next_id = 21 \<rparr>"

text \<open>
  The sweep of the scenario: the zone is three hours ahead of UTC, the delivery to user
  7 fails and every other one succeeds.
\<close>

definition example_sweep :: sweep_env where
  "example_sweep =
     \<lparr> fromisoformat = example_fromisoformat,
       tz_offset = (\<lambda>utc. 10800000000),
       deliver = (\<lambda>user_id events. user_id \<noteq> 7) \<rparr>"

definition example_sweep_event :: "int \<Rightarrow> string \<Rightarrow> string \<Rightarrow> json list \<Rightarrow> doc" where
  "example_sweep_event event_id st start att =
     [(''id'', JInt event_id), (''title'', JStr ''Seminar''), (''starts_at'', JStr start),
      (''status'', JStr st), (''attendees'', JList att)]"

text \<open>
  Events 30 and 31 are approved and start on 10 March (user 7 is listed twice for event
  30), event 32 is approved and starts on 11 March, event 33 is rejected, and event 34 is
  approved and starts at 22:30 UTC on 9 March, which is 1:30 on 10 March in the zone.
\<close>

definition example_sweep_store :: store where
  "example_sweep_store =
     \<lparr> rows = [(30, example_sweep_event 30 ''approved'' ''2025-03-10T18:00:00''
                      [JInt 7, JInt 8, JInt 7]),
               (31, example_sweep_event 31 ''approved'' ''2025-03-10T09:00:00'' [JInt 7]),
               (32, example_sweep_event 32 ''approved'' ''2025-03-11T09:00:00'' [JInt 9]),
               (33, example_sweep_event 33 ''rejected'' ''2025-03-10T10:00:00'' [JInt 9]),
               (34, example_sweep_event 34 ''approved'' ''2025-03-09T22:30:00+00:00'' [JInt 8])],
       next_id = 35 \<rparr>"

text \<open>The run of the sweep at 20:05 on 9 March, and its attempts.\<close>

definition example_now :: int where "example_now = 63877147500000000"

definition example_run :: "error + (int \<times> EventRecord list \<times> bool) list" where
  "example_run =
     send_tomorrows_reminders example_sweep (str_other example_env) example_sweep_store example_now"

definition example_attempts :: "(int \<times> EventRecord list \<times> bool) list" where
  "example_attempts = (case example_run of Inl e \<Rightarrow> [] | Inr attempts \<Rightarrow> attempts)"

lemma py_eq_JStr [simp]: "py_eq a (JStr s) = (a = JStr s)"
proof (cases a)
  case (JFloat f) then show ?thesis by (cases f) auto
qed auto

lemma map_of_setitem [simp]: "map_of (setitem d k v) = (map_of d)(k \<mapsto> v)"
  by (simp add: setitem_def update_conv')

lemma get0_setitem [simp]: "get0 (setitem d k v) k' = (if k' = k then v else get0 d k')"
  by (simp add: get0_def)

lemma get_default_setitem [simp]:
  "get_default (setitem d k v) k' z = (if k' = k then v else get_default d k' z)"
  by (simp add: get_default_def)

lemma map_of_setdefault:
  "map_of (setdefault d k v) = (case map_of d k of None \<Rightarrow> (map_of d)(k \<mapsto> v) | Some _ \<Rightarrow> map_of d)"
  by (simp add: setdefault_def update_conv' split: option.splits)

lemma map_of_blank_none:
  "map_of (blank_none p key) k =
     (if k = key \<and> get0 p key = JNull then Some (JStr '''') else map_of p k)"
  by (simp add: blank_none_def)

lemma map_of_foldl_blank_none:
  "map_of (foldl blank_none p keys) k =
     (if k \<in> set keys \<and> get0 p k = JNull then Some (JStr '''') else map_of p k)"
proof (induction keys arbitrary: p)
  case Nil then show ?case by simp
next
  case (Cons key keys)
  show ?case
    apply (simp add: Cons.IH map_of_blank_none)
    apply (auto simp: get0_def map_of_blank_none blank_none_def split: option.splits if_splits)
    done
qed

lemma map_of_dict_update:
  "map_of (dict_update d u) k = (case map_of (rev u) k of None \<Rightarrow> map_of d k | Some v \<Rightarrow> Some v)"
proof (induction u arbitrary: d)
  case Nil then show ?case by simp
next
  case (Cons kv u)
  obtain k' v' where kv: "kv = (k', v')" by (cases kv)
  show ?case
    by (simp add: kv Cons.IH map_add_def split: option.splits)
qed

lemma coerce_attendees_ints [simp]: "coerce_attendees (map JInt is) = Inr is"
  by (induction "is") auto

text \<open>What a document gives under a key is all that the readers look at.\<close>

lemma get0_cong: "map_of d k = map_of d' k \<Longrightarrow> get0 d k = get0 d' k"
  by (simp add: get0_def)

lemma get_default_cong: "map_of d k = map_of d' k \<Longrightarrow> get_default d k z = get_default d' k z"
  by (simp add: get_default_def)

lemma read_attendees_cong:
  "map_of d ''attendees'' = map_of d' ''attendees'' \<Longrightarrow> read_attendees d = read_attendees d'"
  by (simp add: read_attendees_def get0_def)

lemma read_tags_cong: "map_of d ''tags'' = map_of d' ''tags'' \<Longrightarrow> read_tags d = read_tags d'"
  by (simp add: read_tags_def get0_def)

lemma prepare_tags_cong:
  "map_of d ''tags'' = map_of d' ''tags'' \<Longrightarrow> prepare_tags d = prepare_tags d'"
  by (simp add: prepare_tags_def get0_def)

lemma from_dict_cong:
  assumes "map_of d = map_of d'"
  shows "from_dict str d = from_dict str d'"
proof -
  have g: "get0 d = get0 d'" by (rule ext) (simp add: get0_def assms)
  have gd: "get_default d = get_default d'" by (rule ext)+ (simp add: get_default_def assms)
  have rt: "read_tags d = read_tags d'" by (rule read_tags_cong) (simp add: assms)
  have ra: "read_attendees d = read_attendees d'" by (rule read_attendees_cong) (simp add: assms)
  show ?thesis unfolding from_dict_def g gd rt ra ..
qed

lemma prepare_payload_lookup:
  assumes "prepare_payload now d b = Inr p"
  shows "\<exists>is. read_attendees d = Inr is \<and> (\<forall>k. map_of p k =
     (if k = ''scheduled_at'' then
        (if truthy (get0 d ''scheduled_at'') then map_of d ''scheduled_at''
         else Some (if get0 d ''starts_at'' = JNull then JStr '''' else get0 d ''starts_at''))
      else if k = ''attendees'' then Some (JList (map JInt is))
      else if k \<in> set six_keys then (if get0 d k = JNull then Some (JStr '''') else map_of d k)
      else if k = ''tags'' then Some (prepare_tags d)
      else if k = ''updated_at'' then Some (JStr now)
      else if k = ''created_at'' \<and> b then
        (case map_of d k of None \<Rightarrow> Some (JStr now) | Some v \<Rightarrow> Some v)
      else map_of d k))"
proof -
  define p1 where "p1 = (if b then setdefault d ''created_at'' (JStr now) else d)"
  define p2 where "p2 = setitem p1 ''updated_at'' (JStr now)"
  define p3 where "p3 = setitem p2 ''tags'' (prepare_tags p2)"
  define p4 where "p4 = foldl blank_none p3 six_keys"
  have m1: "map_of p1 k = (if k = ''created_at'' \<and> b then
        (case map_of d k of None \<Rightarrow> Some (JStr now) | Some v \<Rightarrow> Some v) else map_of d k)" for k
    by (simp add: p1_def map_of_setdefault split: option.splits)
  have m2: "map_of p2 k = (if k = ''updated_at'' then Some (JStr now) else map_of p1 k)" for k
    by (simp add: p2_def)
  have t: "prepare_tags p2 = prepare_tags d"
    by (rule prepare_tags_cong) (simp add: m2 m1)
  have m3: "map_of p3 k = (if k = ''tags'' then Some (prepare_tags d) else map_of p2 k)" for k
    by (simp add: p3_def t)
  have g3: "get0 p3 k = get0 d k" if "k \<in> set six_keys" for k
    using that by (auto simp: get0_def m3 m2 m1 six_keys_def)
  have m4: "map_of p4 k = (if k \<in> set six_keys \<and> get0 d k = JNull then Some (JStr '''')
              else map_of p3 k)" for k
    using g3 [of k] by (auto simp add: p4_def map_of_foldl_blank_none)
  have ra: "read_attendees p4 = read_attendees d"
    by (rule read_attendees_cong) (simp add: m4 m3 m2 m1 six_keys_def)
  from assms obtain "is" where isd: "read_attendees d = Inr is"
    and p: "p = (let p5 = setitem p4 ''attendees'' (JList (map JInt is))
                 in if \<not> truthy (get0 p5 ''scheduled_at'')
                    then setitem p5 ''scheduled_at'' (get_default p5 ''starts_at'' (JStr ''''))
                    else p5)"
    unfolding prepare_payload_def Let_def
    by (auto simp: p1_def [symmetric] p2_def [symmetric] p3_def [symmetric] six_keys_def [symmetric]
          p4_def [symmetric] ra split: sum.splits)
  have gs: "get0 p4 ''scheduled_at'' = get0 d ''scheduled_at''"
    by (simp add: get0_def m4 m3 m2 m1 six_keys_def)
  have gst: "get_default p4 ''starts_at'' (JStr '''') =
      (if get0 d ''starts_at'' = JNull then JStr '''' else get0 d ''starts_at'')"
    by (auto simp add: get_default_def get0_def m4 m3 m2 m1 six_keys_def split: option.splits)
  have "\<forall>k. map_of p k =
     (if k = ''scheduled_at'' then
        (if truthy (get0 d ''scheduled_at'') then map_of d ''scheduled_at''
         else Some (if get0 d ''starts_at'' = JNull then JStr '''' else get0 d ''starts_at''))
      else if k = ''attendees'' then Some (JList (map JInt is))
      else if k \<in> set six_keys then (if get0 d k = JNull then Some (JStr '''') else map_of d k)
      else if k = ''tags'' then Some (prepare_tags d)
      else if k = ''updated_at'' then Some (JStr now)
      else if k = ''created_at'' \<and> b then
        (case map_of d k of None \<Rightarrow> Some (JStr now) | Some v \<Rightarrow> Some v)
      else map_of d k)"
    unfolding p Let_def
    by (auto simp add: gs gst m4 m3 m2 m1 six_keys_def)
  with isd show ?thesis by blast
qed

lemma first_error_None: "first_error steps = None \<longleftrightarrow> (\<forall>x\<in>set steps. x = None)"
  by (induction steps rule: first_error.induct) auto

lemma first_error_Some:
  "first_error steps = Some e \<Longrightarrow> Some e \<in> set steps"
  by (induction steps rule: first_error.induct) auto

lemma raised_None [simp]: "raised r = None \<longleftrightarrow> (\<exists>v. r = Inr v)"
  by (cases r) (simp_all add: raised_def)

lemma from_dict_Inr:
  assumes "from_dict str d = Inr r"
  shows "\<exists>items. py_iter (py_or (get0 d ''moderation_messages'') (JList [])) = Inr items \<and>
           moderation_messages r = List.map_filter read_message items"
    and "read_attendees d = Inr (attendees r)"
    and "tags r = read_tags d"
    and "status r = get_default d ''status'' (JStr STATUS_PENDING)"
    and "id_ev r = get0 d ''id''"
    and "created_by r = get0 d ''created_by''"
    and "created_at r = get_default d ''created_at'' (JStr '''')"
    and "updated_at r = get_default d ''updated_at'' (JStr '''')"
    and "approved_by r = get0 d ''approved_by''"
    and "approved_at r = get0 d ''approved_at''"
    and "moderator_note r = get0 d ''moderator_note''"
  using assms unfolding from_dict_def Let_def
  by (auto split: sum.splits)

lemma from_dict_total:
  assumes "py_iter (py_or (get0 d ''moderation_messages'') (JList [])) = Inr items"
    and "read_attendees d = Inr is"
  shows "\<exists>r. from_dict str d = Inr r"
  using assms unfolding from_dict_def Let_def by simp

lemma map_of_to_dict:
  "map_of (to_dict r) ''id'' = Some (id_ev r)"
  "map_of (to_dict r) ''attendees'' = Some (JList (map JInt (attendees r)))"
  "map_of (to_dict r) ''tags'' = Some (JList (tags r))"
  "map_of (to_dict r) ''status'' = Some (status r)"
  "map_of (to_dict r) ''created_by'' = Some (created_by r)"
  "map_of (to_dict r) ''created_at'' = Some (created_at r)"
  "map_of (to_dict r) ''updated_at'' = Some (updated_at r)"
  "map_of (to_dict r) ''approved_by'' = Some (approved_by r)"
  "map_of (to_dict r) ''approved_at'' = Some (approved_at r)"
  "map_of (to_dict r) ''moderator_note'' = Some (moderator_note r)"
  "map_of (to_dict r) ''moderation_messages'' =
     Some (JList (map message_dict (moderation_messages r)))"
  by (simp_all add: to_dict_def)

lemma get_Some_from_dict:
  assumes "get str s eid = Inr (Some ex)"
  shows "\<exists>d. map_of (rows s) eid = Some d \<and> from_dict str (setdefault d ''id'' (JInt eid)) = Inr ex"
  using assms unfolding get_def by (auto split: option.splits sum.splits)

text \<open>
  What \<open>update\<close> returns: nothing for an id without a row; otherwise the record read
  back from the merged and prepared document, which replaces the row.
\<close>

lemma update_Inr:
  assumes "update str bind now s eid u = Inr (ro, s')"
  shows "(get str s eid = Inr None \<and> ro = None \<and> s' = s) \<or>
         (\<exists>ex r p is. get str s eid = Inr (Some ex) \<and> ro = Some r \<and>
            s' = s\<lparr>rows := AList.update eid p (rows s)\<rparr> \<and>
            prepare_payload now (dict_update (to_dict ex) u) False = Inr p \<and>
            text_column bind (get0 p ''updated_at'') = None \<and>
            from_dict str p = Inr r)"
  using assms unfolding update_def Let_def
  by (auto split: sum.splits option.splits)

lemma read_attendees_setitem [simp]:
  "k \<noteq> ''attendees'' \<Longrightarrow> read_attendees (setitem d k v) = read_attendees d"
  by (rule read_attendees_cong) simp

lemma read_attendees_setdefault [simp]:
  "k \<noteq> ''attendees'' \<Longrightarrow> read_attendees (setdefault d k v) = read_attendees d"
  by (rule read_attendees_cong) (simp add: map_of_setdefault split: option.splits)

lemma read_attendees_blank_none [simp]:
  "key \<noteq> ''attendees'' \<Longrightarrow> read_attendees (blank_none p key) = read_attendees p"
  by (rule read_attendees_cong) (simp add: map_of_blank_none)

lemma prepare_payload_total:
  assumes "read_attendees d = Inr is"
  shows "\<exists>p. prepare_payload now d b = Inr p"
  using assms unfolding prepare_payload_def Let_def by (cases b) simp_all

lemma prepare_payload_Inl:
  assumes "prepare_payload now d b = Inl e"
  shows "read_attendees d = Inl e"
  using assms unfolding prepare_payload_def Let_def by (cases b) (simp_all split: sum.splits)

lemma update_total:
  assumes b: "bind (JStr now) = None"
    and g: "get str s eid = Inr (Some ex)"
    and a: "read_attendees (dict_update (to_dict ex) u) = Inr is"
    and m: "py_iter (py_or (get0 (dict_update (to_dict ex) u) ''moderation_messages'') (JList []))
              = Inr items"
  shows "\<exists>r p. update str bind now s eid u = Inr (Some r, s\<lparr>rows := AList.update eid p (rows s)\<rparr>) \<and>
           prepare_payload now (dict_update (to_dict ex) u) False = Inr p \<and>
           from_dict str p = Inr r"
proof -
  let ?m = "dict_update (to_dict ex) u"
  obtain p where p: "prepare_payload now ?m False = Inr p"
    using prepare_payload_total [OF a] by blast
  from prepare_payload_lookup [OF p] a
  have lk: "map_of p ''attendees'' = Some (JList (map JInt is))"
    and mm: "map_of p ''moderation_messages'' = map_of ?m ''moderation_messages''"
    and up: "map_of p ''updated_at'' = Some (JStr now)"
    by (auto simp: six_keys_def)
  have tc: "text_column bind (get0 p ''updated_at'') = None"
    by (simp add: text_column_def get0_def up b)
  have "read_attendees p = Inr is"
    by (simp add: read_attendees_def get0_def lk py_or_def)
  moreover have "get0 p ''moderation_messages'' = get0 ?m ''moderation_messages''"
    by (simp add: get0_def mm)
  ultimately obtain r where r: "from_dict str p = Inr r"
    using from_dict_total [of p items "is" str] m by auto
  show ?thesis
    unfolding update_def Let_def by (simp add: g p r tc)
qed

lemma setdefault_present: "map_of d k \<noteq> None \<Longrightarrow> setdefault d k v = d"
  by (auto simp: setdefault_def)

lemma get_after_write:
  assumes "from_dict str p = Inr r" and "map_of p ''id'' \<noteq> None"
  shows "get str (s\<lparr>rows := AList.update eid p (rows s)\<rparr>) eid = Inr (Some r)"
    and "j \<noteq> eid \<Longrightarrow> get str (s\<lparr>rows := AList.update eid p (rows s)\<rparr>) j = get str s j"
  using assms by (simp_all add: get_def update_conv' setdefault_present)

section \<open>What an update changes\<close>

lemma prepare_tags_JList: "prepare_tags d = JList (prepared_tags d)"
  by (simp add: prepare_tags_def prepared_tags_def Let_def split: json.splits)

lemma get0_dict_update:
  "get0 (dict_update d u) k = (case map_of (rev u) k of None \<Rightarrow> get0 d k | Some v \<Rightarrow> v)"
  by (simp add: get0_def map_of_dict_update split: option.splits)

lemma get0_to_dict:
  "get0 (to_dict r) ''id'' = id_ev r"
  "get0 (to_dict r) ''attendees'' = JList (map JInt (attendees r))"
  "get0 (to_dict r) ''tags'' = JList (tags r)"
  "get0 (to_dict r) ''status'' = status r"
  "get0 (to_dict r) ''created_by'' = created_by r"
  "get0 (to_dict r) ''created_at'' = created_at r"
  "get0 (to_dict r) ''updated_at'' = updated_at r"
  "get0 (to_dict r) ''approved_by'' = approved_by r"
  "get0 (to_dict r) ''approved_at'' = approved_at r"
  "get0 (to_dict r) ''moderator_note'' = moderator_note r"
  "get0 (to_dict r) ''moderation_messages'' = JList (map message_dict (moderation_messages r))"
  by (simp_all add: get0_def map_of_to_dict)

lemma read_attendees_JList:
  "get0 d ''attendees'' = JList (map JInt is) \<Longrightarrow> read_attendees d = Inr is"
  by (cases "is") (simp_all add: read_attendees_def py_or_def)

lemma read_tags_JList: "get0 d ''tags'' = JList xs \<Longrightarrow> read_tags d = xs"
  by (cases xs) (simp_all add: read_tags_def py_or_def)

text \<open>
  The record that an update returns, field by field, from the merged document
  \<open>m\<close> (the existing record's \<open>to_dict\<close> with the updates stored into it).
\<close>

lemma update_Some_fields:
  assumes "update str bind now s eid u = Inr (Some r, s')"
  shows "\<exists>ex p. get str s eid = Inr (Some ex) \<and>
           s' = s\<lparr>rows := AList.update eid p (rows s)\<rparr> \<and>
           from_dict str p = Inr r \<and> map_of p ''id'' \<noteq> None \<and>
           (let m = dict_update (to_dict ex) u in
              status r = get0 m ''status'' \<and>
              approved_by r = get0 m ''approved_by'' \<and>
              approved_at r = get0 m ''approved_at'' \<and>
              moderator_note r = get0 m ''moderator_note'' \<and>
              created_by r = get0 m ''created_by'' \<and>
              created_at r = get0 m ''created_at'' \<and>
              id_ev r = get0 m ''id'' \<and>
              updated_at r = JStr now \<and>
              tags r = prepared_tags m \<and>
              read_attendees m = Inr (attendees r) \<and>
              (\<exists>items. py_iter (py_or (get0 m ''moderation_messages'') (JList [])) = Inr items \<and>
                 moderation_messages r = List.map_filter read_message items))"
proof -
  from update_Inr [OF assms] obtain ex p where
    g: "get str s eid = Inr (Some ex)" and
    s': "s' = s\<lparr>rows := AList.update eid p (rows s)\<rparr>" and
    p: "prepare_payload now (dict_update (to_dict ex) u) False = Inr p" and
    r: "from_dict str p = Inr r"
    by auto
  let ?m = "dict_update (to_dict ex) u"
  from prepare_payload_lookup [OF p] obtain "is" where
    ra: "read_attendees ?m = Inr is" and
    lk: "\<And>k. map_of p k =
     (if k = ''scheduled_at'' then
        (if truthy (get0 ?m ''scheduled_at'') then map_of ?m ''scheduled_at''
         else Some (if get0 ?m ''starts_at'' = JNull then JStr '''' else get0 ?m ''starts_at''))
      else if k = ''attendees'' then Some (JList (map JInt is))
      else if k \<in> set six_keys then (if get0 ?m k = JNull then Some (JStr '''') else map_of ?m k)
      else if k = ''tags'' then Some (prepare_tags ?m)
      else if k = ''updated_at'' then Some (JStr now)
      else if k = ''created_at'' \<and> False then
        (case map_of ?m k of None \<Rightarrow> Some (JStr now) | Some v \<Rightarrow> Some v)
      else map_of ?m k)"
    by blast
  have present: "map_of ?m k \<noteq> None" if "map_of (to_dict ex) k \<noteq> None" for k
    using that by (simp add: map_of_dict_update split: option.splits)
  have gd: "get_default p k z = get0 ?m k"
    if "k \<notin> set six_keys" "k \<noteq> ''scheduled_at''" "k \<noteq> ''attendees''" "k \<noteq> ''tags''"
      "k \<noteq> ''updated_at''" "map_of (to_dict ex) k \<noteq> None" for k z
    using that present [of k] by (auto simp: get_default_def get0_def lk split: option.splits)
  have g0: "get0 p k = get0 ?m k"
    if "k \<notin> set six_keys" "k \<noteq> ''scheduled_at''" "k \<noteq> ''attendees''" "k \<noteq> ''tags''"
      "k \<noteq> ''updated_at''" for k
    using that by (simp add: get0_def lk)
  have idp: "map_of p ''id'' \<noteq> None"
    using present [of "''id''"] by (simp add: lk six_keys_def map_of_to_dict)
  have att: "attendees r = is"
  proof -
    have "get0 p ''attendees'' = JList (map JInt is)" by (simp add: get0_def lk)
    then have "read_attendees p = Inr is" by (rule read_attendees_JList)
    with from_dict_Inr(2) [OF r] show ?thesis by simp
  qed
  have tg: "tags r = prepared_tags ?m"
  proof -
    have "get0 p ''tags'' = JList (prepared_tags ?m)"
      by (simp add: get0_def lk six_keys_def prepare_tags_JList)
    then have "read_tags p = prepared_tags ?m" by (rule read_tags_JList)
    with from_dict_Inr(3) [OF r] show ?thesis by simp
  qed
  have upd: "updated_at r = JStr now"
    using from_dict_Inr(8) [OF r] by (simp add: get_default_def lk six_keys_def)
  from from_dict_Inr(1) [OF r] obtain items where
    it: "py_iter (py_or (get0 p ''moderation_messages'') (JList [])) = Inr items"
      "moderation_messages r = List.map_filter read_message items" by blast
  have mm: "get0 p ''moderation_messages'' = get0 ?m ''moderation_messages''"
    by (rule g0) (simp_all add: six_keys_def)
  show ?thesis
    apply (rule exI [of _ ex], rule exI [of _ p])
    unfolding Let_def
    apply (intro conjI)
    apply (rule g)
    apply (rule s')
    apply (rule r)
    apply (rule idp)
    apply (simp add: from_dict_Inr(4) [OF r] gd six_keys_def map_of_to_dict)
    apply (simp add: from_dict_Inr(9) [OF r] g0 six_keys_def)
    apply (simp add: from_dict_Inr(10) [OF r] g0 six_keys_def)
    apply (simp add: from_dict_Inr(11) [OF r] g0 six_keys_def)
    apply (simp add: from_dict_Inr(6) [OF r] g0 six_keys_def)
    apply (simp add: from_dict_Inr(7) [OF r] gd six_keys_def map_of_to_dict)
    apply (simp add: from_dict_Inr(5) [OF r] g0 six_keys_def)
    apply (rule upd)
    apply (rule tg)
    apply (simp add: ra att)
    using it mm apply auto
    done
qed

section \<open>Reading the store after an update\<close>

lemma update_get_same:
  assumes "update str bind now s eid u = Inr (Some r, s')"
  shows "get str s' eid = Inr (Some r)"
proof -
  from update_Some_fields [OF assms] obtain p where
    "s' = s\<lparr>rows := AList.update eid p (rows s)\<rparr>" "from_dict str p = Inr r"
    "map_of p ''id'' \<noteq> None" by blast
  then show ?thesis using get_after_write(1) by simp
qed

lemma update_get_other:
  assumes "update str bind now s eid u = Inr (ro, s')" and "j \<noteq> eid"
  shows "get str s' j = get str s j"
  using update_Inr [OF assms(1)] assms(2)
  by (auto simp: get_def update_conv')

lemma update_None_same:
  assumes "update str bind now s eid u = Inr (None, s')"
  shows "s' = s"
  using update_Inr [OF assms] by auto

lemma update_status:
  assumes u: "update str bind now s eid u = Inr (ro, s')"
    and g: "get str s j = Inr (Some before)"
  shows "\<exists>after. get str s' j = Inr (Some after) \<and>
           status after = (if j = eid then (case map_of (rev u) ''status'' of
                                              None \<Rightarrow> status before | Some v \<Rightarrow> v)
                           else status before)"
proof (cases "j = eid")
  case False
  then show ?thesis using update_get_other [OF u False] g by simp
next
  case True
  show ?thesis
  proof (cases ro)
    case None
    then show ?thesis using update_Inr [OF u] g True by auto
  next
    case (Some r)
    from update_Some_fields [OF u [unfolded Some]] g True
    have "status r = get0 (dict_update (to_dict before) u) ''status''"
      by (auto simp: Let_def)
    then have "status r = (case map_of (rev u) ''status'' of None \<Rightarrow> status before | Some v \<Rightarrow> v)"
      by (simp add: get0_dict_update get0_to_dict split: option.splits)
    moreover have "get str s' eid = Inr (Some r)"
      using update_get_same u Some by blast
    ultimately show ?thesis using True by simp
  qed
qed

text \<open>The notices that \<open>notify_admins\<close> stores for an event.\<close>

lemma notify_admins_Inr:
  assumes n: "notify_admins ctx s event = Inr s'"
  shows "s' = s \<or>
         (\<exists>i ro. format_event_details (parse_iso ctx) event = None \<and>
            List.map_filter (sent_notice ctx) (ADMIN_IDS ctx) \<noteq> [] \<and>
            py_or (id_ev event) (JInt 0) = JInt i \<and>
            update (str_other ctx) (bind_text ctx) (utcnow_notify ctx) s i
              [(''moderation_messages'', JList (List.map_filter (sent_notice ctx) (ADMIN_IDS ctx)))]
              = Inr (ro, s'))"
proof (cases "format_event_details (parse_iso ctx) event = None \<and>
              List.map_filter (sent_notice ctx) (ADMIN_IDS ctx) \<noteq> []")
  case False
  then have "s' = s" using n by (auto simp: notify_admins_def Let_def split: if_splits)
  then show ?thesis by simp
next
  case True
  with n show ?thesis
    by (auto simp: notify_admins_def Let_def split: json.splits sum.splits)
qed

lemma notify_admins_status:
  assumes n: "notify_admins ctx s event = Inr s'"
    and g: "get (str_other ctx) s j = Inr (Some before)"
  shows "\<exists>after. get (str_other ctx) s' j = Inr (Some after) \<and> status after = status before"
proof -
  from notify_admins_Inr [OF n] consider "s' = s"
    | i ro where "update (str_other ctx) (bind_text ctx) (utcnow_notify ctx) s i
       [(''moderation_messages'', JList (List.map_filter (sent_notice ctx) (ADMIN_IDS ctx)))]
       = Inr (ro, s')" by blast
  then show ?thesis
  proof cases
    case 1
    then show ?thesis using g by simp
  next
    case 2
    from update_status [OF this g] show ?thesis by (auto split: if_splits)
  qed
qed

section \<open>What an insert writes\<close>

lemma insert_Inr:
  assumes "insert str bind now s event = Inr (r, s')"
  shows "\<exists>p0. prepare_payload now (insert_doc event) True = Inr p0 \<and>
           map_of (rows s) (next_id s) = None \<and>
           text_column bind (get0 p0 ''created_at'') = None \<and>
           text_column bind (get0 p0 ''updated_at'') = None \<and>
           from_dict str (setitem p0 ''id'' (JInt (next_id s))) = Inr r \<and>
           s' = \<lparr>rows = AList.update (next_id s) (setitem p0 ''id'' (JInt (next_id s))) (rows s),
                 next_id = next_id s + 1\<rparr>"
  using assms unfolding insert_def insert_doc_def Let_def
  by (auto simp: first_error_None split: sum.splits if_splits option.splits)

lemma insert_fields:
  assumes i: "insert str bind now s event = Inr (r, s')"
  shows "status r = get_default (insert_doc event) ''status'' (JStr STATUS_PENDING)"
    and "created_at r = (case map_of (insert_doc event) ''created_at'' of
                           None \<Rightarrow> JStr now | Some v \<Rightarrow> v)"
    and "updated_at r = JStr now"
    and "id_ev r = JInt (next_id s)"
    and "tags r = prepared_tags (insert_doc event)"
    and "read_attendees (insert_doc event) = Inr (attendees r)"
    and "get str s' (next_id s) = Inr (Some r)"
proof -
  let ?d = "insert_doc event"
  from insert_Inr [OF i] obtain p0 where
    p0: "prepare_payload now ?d True = Inr p0" and
    r: "from_dict str (setitem p0 ''id'' (JInt (next_id s))) = Inr r" and
    s': "s' = \<lparr>rows = AList.update (next_id s) (setitem p0 ''id'' (JInt (next_id s))) (rows s),
                 next_id = next_id s + 1\<rparr>"
    by blast
  let ?p = "setitem p0 ''id'' (JInt (next_id s))"
  from prepare_payload_lookup [OF p0] obtain "is" where
    ra: "read_attendees ?d = Inr is" and
    lk: "\<And>k. map_of p0 k =
     (if k = ''scheduled_at'' then
        (if truthy (get0 ?d ''scheduled_at'') then map_of ?d ''scheduled_at''
         else Some (if get0 ?d ''starts_at'' = JNull then JStr '''' else get0 ?d ''starts_at''))
      else if k = ''attendees'' then Some (JList (map JInt is))
      else if k \<in> set six_keys then (if get0 ?d k = JNull then Some (JStr '''') else map_of ?d k)
      else if k = ''tags'' then Some (prepare_tags ?d)
      else if k = ''updated_at'' then Some (JStr now)
      else if k = ''created_at'' \<and> True then
        (case map_of ?d k of None \<Rightarrow> Some (JStr now) | Some v \<Rightarrow> Some v)
      else map_of ?d k)"
    by blast
  show "status r = get_default ?d ''status'' (JStr STATUS_PENDING)"
    using from_dict_Inr(4) [OF r] by (simp add: get_default_def lk six_keys_def)
  show "created_at r = (case map_of ?d ''created_at'' of None \<Rightarrow> JStr now | Some v \<Rightarrow> v)"
    using from_dict_Inr(7) [OF r]
    by (simp add: get_default_def lk six_keys_def split: option.splits)
  show "updated_at r = JStr now"
    using from_dict_Inr(8) [OF r] by (simp add: get_default_def lk six_keys_def)
  show "id_ev r = JInt (next_id s)"
    using from_dict_Inr(5) [OF r] by simp
  have "get0 ?p ''tags'' = JList (prepared_tags ?d)"
    by (simp add: get0_def lk six_keys_def prepare_tags_JList)
  then have "read_tags ?p = prepared_tags ?d" by (rule read_tags_JList)
  with from_dict_Inr(3) [OF r] show "tags r = prepared_tags ?d" by simp
  have "get0 ?p ''attendees'' = JList (map JInt is)" by (simp add: get0_def lk)
  then have "read_attendees ?p = Inr is" by (rule read_attendees_JList)
  with from_dict_Inr(2) [OF r] ra show "read_attendees ?d = Inr (attendees r)" by simp
  have "map_of ?p ''id'' \<noteq> None" by simp
  with r show "get str s' (next_id s) = Inr (Some r)"
    by (simp add: s' get_def update_conv' setdefault_present)
qed

lemma insert_total:
  assumes a: "read_attendees (insert_doc event) = Inr is"
    and m: "py_iter (py_or (get0 (insert_doc event) ''moderation_messages'') (JList [])) = Inr items"
    and f: "map_of (rows s) (next_id s) = None"
    and c: "text_column bind (case map_of (insert_doc event) ''created_at'' of
                                None \<Rightarrow> JStr now | Some v \<Rightarrow> v) = None"
    and b: "bind (JStr now) = None"
  shows "\<exists>r s'. insert str bind now s event = Inr (r, s')"
proof -
  let ?d = "insert_doc event"
  obtain p0 where p0: "prepare_payload now ?d True = Inr p0"
    using prepare_payload_total [OF a] by blast
  let ?p = "setitem p0 ''id'' (JInt (next_id s))"
  from prepare_payload_lookup [OF p0] a
  have lk: "map_of p0 ''attendees'' = Some (JList (map JInt is))"
    and mm: "map_of p0 ''moderation_messages'' = map_of ?d ''moderation_messages''"
    and up: "map_of p0 ''updated_at'' = Some (JStr now)"
    and cr: "map_of p0 ''created_at'' =
               (case map_of ?d ''created_at'' of None \<Rightarrow> Some (JStr now) | Some v \<Rightarrow> Some v)"
    by (auto simp: six_keys_def)
  have tc: "text_column bind (get0 p0 ''updated_at'') = None"
    by (simp add: text_column_def get0_def up b)
  have tc2: "text_column bind (get0 p0 ''created_at'') = None"
    using c by (simp add: get0_def cr split: option.splits)
  have "read_attendees ?p = Inr is"
    by (rule read_attendees_JList) (simp add: get0_def lk)
  moreover have "get0 ?p ''moderation_messages'' = get0 ?d ''moderation_messages''"
    by (simp add: get0_def mm)
  ultimately obtain r where r: "from_dict str ?p = Inr r"
    using from_dict_total [of ?p items "is" str] m by auto
  show ?thesis
    using p0 r f tc tc2 unfolding insert_def Let_def insert_doc_def by simp
qed

section \<open>Reading the example store\<close>

lemma example_get_10:
  "get (str_other example_env) example_store 10 = Inr (Some (example_record 10 ''approved'' [7]))"
  by code_simp

lemma example_get_11:
  "get (str_other example_env) example_store 11 = Inr (Some (example_record 11 ''rejected'' []))"
  by code_simp

lemma example_get_12:
  "get (str_other example_env) example_store 12 = Inr (Some (example_record 12 ''pending'' []))"
  by code_simp

lemma example_admin: "1 \<in> set (ADMIN_IDS example_env)"
  by (simp add: example_env_def)

section \<open>Claim C6: approving an approved event, rejecting a rejected one\<close>

text \<open>
  C6. When an administrator approves an event that is already approved, or rejects one
  that is already rejected, the handler returns before it writes: the store (and so the
  record, with its \<open>approved_by\<close> and \<open>approved_at\<close>) is the one it was given, and the
  caller gets an answer of its own, "already approved" or "already rejected", which is
  not an alert and differs from the answer of a change of state.
\<close>

theorem approve_reject_noop:
  assumes "user_id \<in> set (ADMIN_IDS ctx)"
    and "parse_event_id data = Some event_id"
    and "get (str_other ctx) s event_id = Inr (Some event)"
  shows "(status event = JStr STATUS_APPROVED \<longrightarrow>
            cb_events_approve ctx s user_id data = Inr (AlreadyApproved, s)) \<and>
         (status event = JStr STATUS_REJECTED \<longrightarrow>
            cb_events_reject ctx s user_id data = Inr (AlreadyRejected, s)) \<and>
         \<not> show_alert AlreadyApproved \<and> \<not> show_alert AlreadyRejected \<and>
         AlreadyApproved \<noteq> ApprovedOk \<and> AlreadyRejected \<noteq> RejectedOk"
  using assms by (simp add: cb_events_approve_def cb_events_reject_def show_alert_def)

theorem approve_reject_noop_witness:
  "1 \<in> set (ADMIN_IDS example_env) \<and>
   parse_event_id ''events:approve:10'' = Some 10 \<and>
   get (str_other example_env) example_store 10 = Inr (Some (example_record 10 ''approved'' [7])) \<and>
   cb_events_approve example_env example_store 1 ''events:approve:10''
     = Inr (AlreadyApproved, example_store) \<and>
   parse_event_id ''events:reject:11'' = Some 11 \<and>
   get (str_other example_env) example_store 11 = Inr (Some (example_record 11 ''rejected'' [])) \<and>
   cb_events_reject example_env example_store 1 ''events:reject:11''
     = Inr (AlreadyRejected, example_store)"
proof -
  have p10: "parse_event_id ''events:approve:10'' = Some 10" by code_simp
  have p11: "parse_event_id ''events:reject:11'' = Some 11" by code_simp
  have s10: "status (example_record 10 ''approved'' [7]) = JStr STATUS_APPROVED"
    by (simp add: example_record_def STATUS_APPROVED_def)
  have s11: "status (example_record 11 ''rejected'' []) = JStr STATUS_REJECTED"
    by (simp add: example_record_def STATUS_REJECTED_def)
  from approve_reject_noop [OF example_admin p10 example_get_10] s10
  have a: "cb_events_approve example_env example_store 1 ''events:approve:10''
     = Inr (AlreadyApproved, example_store)" by simp
  from approve_reject_noop [OF example_admin p11 example_get_11] s11
  have b: "cb_events_reject example_env example_store 1 ''events:reject:11''
     = Inr (AlreadyRejected, example_store)" by simp
  show ?thesis using example_admin p10 p11 example_get_10 example_get_11 a b by simp
qed

section \<open>Claim C10: the attendees of a record are coerced integers\<close>

lemma coerce_attendees_Inr:
  "coerce_attendees vs = Inr is \<Longrightarrow> is = coerced vs"
proof (induction vs arbitrary: "is")
  case Nil
  then show ?case by (simp add: coerced_def List.map_filter_simps)
next
  case (Cons v vs)
  show ?case
  proof (cases "py_int v")
    case (Inr i)
    with Cons.prems obtain js where "coerce_attendees vs = Inr js" "is = i # js"
      by (auto split: sum.splits)
    with Cons.IH [of js] Inr show ?thesis
      by (simp add: coerced_def List.map_filter_simps)
  next
    case (Inl e)
    with Cons.prems have "coerce_attendees vs = Inr is"
      by (cases e) (auto split: sum.splits)
    with Cons.IH [of "is"] Inl show ?thesis
      by (simp add: coerced_def List.map_filter_simps)
  qed
qed

lemma coerce_attendees_total:
  "\<forall>v\<in>set vs. py_int v \<noteq> Inl OverflowError \<Longrightarrow> coerce_attendees vs = Inr (coerced vs)"
proof (induction vs)
  case Nil
  then show ?case by (simp add: coerced_def List.map_filter_simps)
next
  case (Cons v vs)
  then have ih: "coerce_attendees vs = Inr (coerced vs)" by simp
  have no: "py_int v \<noteq> Inl OverflowError" using Cons.prems by simp
  have ne: "py_int v \<noteq> Inl IntegrityError" "py_int v \<noteq> Inl DataError"
    "py_int v \<noteq> Inl AttributeError" "py_int v \<noteq> Inl ZeroDivisionError"
    "py_int v \<noteq> Inl ValidationError"
    by (cases v rule: py_int.cases; simp split: option.splits)+
  show ?case
  proof (cases "py_int v")
    case (Inr i)
    then show ?thesis using ih by (simp add: coerced_def List.map_filter_simps)
  next
    case (Inl e)
    then show ?thesis using ih no ne
      by (cases e) (simp_all add: coerced_def List.map_filter_simps)
  qed
qed

lemma from_rows_attendees:
  "from_rows str rws = Inr rs \<Longrightarrow>
   \<forall>r\<in>set rs. \<exists>row\<in>set rws. read_attendees (snd row) = Inr (attendees r)"
proof (induction rws arbitrary: rs)
  case Nil
  then show ?case by simp
next
  case (Cons row rws)
  from Cons.prems obtain r rs' where
    r: "from_dict str (setdefault (snd row) ''id'' (JInt (fst row))) = Inr r" and
    rs': "from_rows str rws = Inr rs'" and rs: "rs = r # rs'"
    by (auto split: sum.splits)
  have "read_attendees (snd row) = Inr (attendees r)"
    using from_dict_Inr(2) [OF r] by simp
  with Cons.IH [OF rs'] rs show ?case by auto
qed

text \<open>
  C10. The attendees of every record that the store produces are integers obtained
  with \<open>int()\<close>: the loop over the raw entries (\<open>read_attendees\<close>) returns exactly the
  coerced entries, in order, without those for which \<open>int()\<close> raises, and it does
  return that list whenever no entry makes \<open>int()\<close> raise anything but TypeError or
  ValueError (an infinite float raises OverflowError, which the loop does not catch).
  The attendees of a record from \<open>get\<close> and \<open>list_all\<close> are that list for the stored
  document, those of a record from \<open>insert\<close> for the inserted document, and those of a
  record from \<open>update\<close> for the merged document.
\<close>

theorem attendees_coerced:
  "(read_attendees d = Inr is \<longrightarrow> (\<exists>vs. raw_attendees d = Inr vs \<and> is = coerced vs)) \<and>
   (raw_attendees d2 = Inr vs2 \<and> (\<forall>v\<in>set vs2. py_int v \<noteq> Inl OverflowError) \<longrightarrow>
      read_attendees d2 = Inr (coerced vs2)) \<and>
   (get str s event_id = Inr (Some r_get) \<longrightarrow>
      (\<exists>dd. map_of (rows s) event_id = Some dd \<and> read_attendees dd = Inr (attendees r_get))) \<and>
   (list_all_events str s = Inr rs \<longrightarrow>
      (\<forall>r\<in>set rs. \<exists>row\<in>set (rows s). read_attendees (snd row) = Inr (attendees r))) \<and>
   (insert str bind now s_ins event = Inr (r_ins, s_ins') \<longrightarrow>
      read_attendees (insert_doc event) = Inr (attendees r_ins)) \<and>
   (update str bind now s_upd event_id2 u = Inr (Some r_upd, s_upd') \<longrightarrow>
      (\<exists>ex. get str s_upd event_id2 = Inr (Some ex) \<and>
            read_attendees (dict_update (to_dict ex) u) = Inr (attendees r_upd)))"
proof (intro conjI impI)
  assume "read_attendees d = Inr is"
  then show "\<exists>vs. raw_attendees d = Inr vs \<and> is = coerced vs"
    by (auto simp: read_attendees_def raw_attendees_def split: sum.splits
          dest: coerce_attendees_Inr)
next
  assume "raw_attendees d2 = Inr vs2 \<and> (\<forall>v\<in>set vs2. py_int v \<noteq> Inl OverflowError)"
  then show "read_attendees d2 = Inr (coerced vs2)"
    by (simp add: read_attendees_def raw_attendees_def coerce_attendees_total)
next
  assume "get str s event_id = Inr (Some r_get)"
  from get_Some_from_dict [OF this] obtain dd where
    dd: "map_of (rows s) event_id = Some dd" and
    r: "from_dict str (setdefault dd ''id'' (JInt event_id)) = Inr r_get" by blast
  from from_dict_Inr(2) [OF r] have "read_attendees dd = Inr (attendees r_get)" by simp
  with dd show "\<exists>dd. map_of (rows s) event_id = Some dd \<and>
      read_attendees dd = Inr (attendees r_get)" by blast
next
  assume "list_all_events str s = Inr rs"
  then have "from_rows str (rev (sort_key fst (rows s))) = Inr rs"
    by (simp add: list_all_events_def)
  from from_rows_attendees [OF this]
  show "\<forall>r\<in>set rs. \<exists>row\<in>set (rows s). read_attendees (snd row) = Inr (attendees r)"
    by simp
next
  assume "insert str bind now s_ins event = Inr (r_ins, s_ins')"
  then show "read_attendees (insert_doc event) = Inr (attendees r_ins)"
    by (rule insert_fields(6))
next
  assume "update str bind now s_upd event_id2 u = Inr (Some r_upd, s_upd')"
  from update_Some_fields [OF this]
  show "\<exists>ex. get str s_upd event_id2 = Inr (Some ex) \<and>
            read_attendees (dict_update (to_dict ex) u) = Inr (attendees r_upd)"
    by (auto simp: Let_def)
qed

theorem attendees_coerced_witness:
  "raw_attendees example_mixed
     = Inr [JInt 5, JStr ''7'', JStr ''x'', JNull, JFloat (Finite (7 / 2)), JBool True,
            JList [JInt 1], JStr [CHR 0x1C, CHR ''9''], JStr [CHR 0xD9, CHR 0xA3],
            JStr '' 1_0 ''] \<and>
   list_all (\<lambda>v. py_int v \<noteq> Inl OverflowError)
     [JInt 5, JStr ''7'', JStr ''x'', JNull, JFloat (Finite (7 / 2)), JBool True,
      JList [JInt 1], JStr [CHR 0x1C, CHR ''9''], JStr [CHR 0xD9, CHR 0xA3], JStr '' 1_0 ''] \<and>
   read_attendees example_mixed = Inr [5, 7, 3, 1, 3, 10] \<and>
   get (str_other example_env) example_mixed_store 20
     = Inr (Some (the (record_at example_env example_mixed_store 20))) \<and>
   attendees (the (record_at example_env example_mixed_store 20)) = [5, 7, 3, 1, 3, 10] \<and>
   list_all_events (str_other example_env) example_mixed_store
     = Inr [the (record_at example_env example_mixed_store 20)] \<and>
   insert (str_other example_env) (bind_text example_env) (utcnow example_env) example_store (Mapping example_mixed)
     = Inr (projr (insert (str_other example_env) (bind_text example_env) (utcnow example_env) example_store
                     (Mapping example_mixed))) \<and>
   attendees (fst (projr (insert (str_other example_env) (bind_text example_env) (utcnow example_env) example_store
                            (Mapping example_mixed)))) = [5, 7, 3, 1, 3, 10] \<and>
   update (str_other example_env) (bind_text example_env) (utcnow example_env) example_store 10
       [(''attendees'', JList [JStr ''8'', JNull])]
     = Inr (projr (update (str_other example_env) (bind_text example_env) (utcnow example_env) example_store 10
                     [(''attendees'', JList [JStr ''8'', JNull])])) \<and>
   map_option attendees
     (fst (projr (update (str_other example_env) (bind_text example_env) (utcnow example_env) example_store 10
                    [(''attendees'', JList [JStr ''8'', JNull])]))) = Some [8]"
proof -
  let ?vs = "[JInt 5, JStr ''7'', JStr ''x'', JNull, JFloat (Finite (7 / 2)), JBool True,
              JList [JInt 1], JStr [CHR 0x1C, CHR ''9''], JStr [CHR 0xD9, CHR 0xA3],
              JStr '' 1_0 '']"
  let ?g = "the (record_at example_env example_mixed_store 20)"
  let ?i = "insert (str_other example_env) (bind_text example_env) (utcnow example_env) example_store
              (Mapping example_mixed)"
  let ?uu = "[(''attendees'', JList [JStr ''8'', JNull])]"
  let ?u = "update (str_other example_env) (bind_text example_env) (utcnow example_env) example_store 10 ?uu"
  have raw: "raw_attendees example_mixed = Inr ?vs" by code_simp
  have no: "list_all (\<lambda>v. py_int v \<noteq> Inl OverflowError) ?vs" by code_simp
  have co: "coerced ?vs = [5, 7, 3, 1, 3, 10]" by code_simp
  have g: "get (str_other example_env) example_mixed_store 20 = Inr (Some ?g)" by code_simp
  have l: "list_all_events (str_other example_env) example_mixed_store = Inr [?g]" by code_simp
  have i: "?i = Inr (fst (projr ?i), snd (projr ?i))" by code_simp
  have u: "?u = Inr (Some (the (fst (projr ?u))), snd (projr ?u))" by code_simp
  have m: "map_of (rows example_mixed_store) 20 = Some example_mixed" by code_simp
  have d: "insert_doc (Mapping example_mixed) = example_mixed" by (simp add: insert_doc_def)
  have mu: "read_attendees
              (dict_update (to_dict (example_record 10 ''approved'' [7])) ?uu) = Inr [8]"
    by code_simp
  note T = attendees_coerced [of example_mixed "[5, 7, 3, 1, 3, 10]" example_mixed ?vs
      "str_other example_env" example_mixed_store 20 ?g "[?g]" "bind_text example_env"
      "utcnow example_env"
      example_store "Mapping example_mixed" "fst (projr ?i)" "snd (projr ?i)"
      example_store 10 ?uu "the (fst (projr ?u))" "snd (projr ?u)"]
  have ra: "read_attendees example_mixed = Inr [5, 7, 3, 1, 3, 10]"
    using T [THEN conjunct2, THEN conjunct1] raw no co by (simp add: list_all_iff)
  have ag: "attendees ?g = [5, 7, 3, 1, 3, 10]"
    using T [THEN conjunct2, THEN conjunct2, THEN conjunct1] g m ra by auto
  have ai: "attendees (fst (projr ?i)) = [5, 7, 3, 1, 3, 10]"
    using T [THEN conjunct2, THEN conjunct2, THEN conjunct2, THEN conjunct2, THEN conjunct1]
      i d ra by auto
  have au: "attendees (the (fst (projr ?u))) = [8]"
    using T [THEN conjunct2, THEN conjunct2, THEN conjunct2, THEN conjunct2, THEN conjunct2]
      u example_get_10 mu by auto
  have au': "map_option attendees (fst (projr ?u)) = Some [8]"
    using u au by (metis Inr_inject fst_conv option.simps(9) sum.sel(2))
  have i2: "?i = Inr (projr ?i)" by code_simp
  have u2: "?u = Inr (projr ?u)" by code_simp
  show ?thesis by (intro conjI raw no ra g ag l i2 ai u2 au')
qed

end
